theory Spec2Isabelle
  imports Complex_Main "HOL-Library.Multiset" "HOL-Library.Product_Lexorder"
begin

section \<open>Errors and results\<close>

text \<open>
  Every Python exception the modelled code can raise is a value. A computation that may
  raise returns \<open>error + 'a\<close>, with \<open>Inl\<close> for the exception.
\<close>

datatype error = KeyError | ValueError | IndexError | OverflowError

definition then_r :: "error + 'a \<Rightarrow> ('a \<Rightarrow> error + 'b) \<Rightarrow> error + 'b" where
  "then_r r f = (case r of Inl e \<Rightarrow> Inl e | Inr v \<Rightarrow> f v)"

text \<open>
  A Python sum \<open>t1 + t2 + ...\<close> evaluates its terms from left to right and stops at the
  first one that raises.
\<close>

fun sum_results :: "(error + int) list \<Rightarrow> error + int" where
  "sum_results [] = Inr 0"
| "sum_results (r # rs) =
     (case r of Inl e \<Rightarrow> Inl e
      | Inr v \<Rightarrow> (case sum_results rs of Inl e \<Rightarrow> Inl e | Inr s \<Rightarrow> Inr (v + s)))"

text \<open>\<open>xs.index(x)\<close>: the first position of \<open>x\<close>, ValueError when it is absent.\<close>

fun index_of :: "'a list \<Rightarrow> 'a \<Rightarrow> error + nat" where
  "index_of [] x = Inl ValueError"
| "index_of (y # ys) x =
     (if y = x then Inr 0
      else (case index_of ys x of Inl e \<Rightarrow> Inl e | Inr i \<Rightarrow> Inr (Suc i)))"

text \<open>\<open>xs[i]\<close> for an index that is never negative: IndexError past the end.\<close>

definition getitem :: "'a list \<Rightarrow> nat \<Rightarrow> error + 'a" where
  "getitem xs i = (if i < length xs then Inr (xs ! i) else Inl IndexError)"

text \<open>Python truthiness of an optional string: \<open>None\<close> and \<open>""\<close> are false.\<close>

definition truthy :: "string option \<Rightarrow> bool" where
  "truthy s = (case s of None \<Rightarrow> False | Some t \<Rightarrow> t \<noteq> [])"

section \<open>Constant tables (config/settings.py, astrology\_engine.py)\<close>

definition NAKSHATRA_LIST :: "string list" where
  "NAKSHATRA_LIST =
    [''Ashwini'', ''Bharani'', ''Krittika'', ''Rohini'', ''Mrigashira'',
     ''Ardra'', ''Punarvasu'', ''Pushya'', ''Ashlesha'',
     ''Magha'', ''Purva Phalguni'', ''Uttara Phalguni'',
     ''Hasta'', ''Chitra'', ''Swati'', ''Vishakha'',
     ''Anuradha'', ''Jyeshtha'', ''Mula'',
     ''Purva Ashadha'', ''Uttara Ashadha'', ''Shravana'',
     ''Dhanishta'', ''Shatabhisha'', ''Purva Bhadrapada'',
     ''Uttara Bhadrapada'', ''Revati'']"

definition DASHA_SEQUENCE :: "(string \<times> int) list" where
  "DASHA_SEQUENCE =
    [(''Ketu'', 7), (''Venus'', 20), (''Sun'', 6), (''Moon'', 10), (''Mars'', 7),
     (''Rahu'', 18), (''Jupiter'', 16), (''Saturn'', 19), (''Mercury'', 17)]"

definition NAKSHATRA_LORDS :: "string list" where
  "NAKSHATRA_LORDS =
    [''Ketu'', ''Venus'', ''Sun'', ''Moon'', ''Mars'', ''Rahu'', ''Jupiter'', ''Saturn'', ''Mercury'',
     ''Ketu'', ''Venus'', ''Sun'', ''Moon'', ''Mars'', ''Rahu'', ''Jupiter'', ''Saturn'', ''Mercury'',
     ''Ketu'', ''Venus'', ''Sun'', ''Moon'', ''Mars'', ''Rahu'', ''Jupiter'', ''Saturn'', ''Mercury'']"

text \<open>\<open>PLANET_FRIENDS.get(lord, set())\<close>: an unknown planet has no friends.\<close>

definition PLANET_FRIENDS :: "string \<Rightarrow> string list" where
  "PLANET_FRIENDS p =
    (if p = ''Sun'' then [''Moon'', ''Mars'', ''Jupiter'']
     else if p = ''Moon'' then [''Sun'', ''Mercury'']
     else if p = ''Mars'' then [''Sun'', ''Moon'', ''Jupiter'']
     else if p = ''Mercury'' then [''Sun'', ''Venus'']
     else if p = ''Jupiter'' then [''Sun'', ''Moon'', ''Mars'']
     else if p = ''Venus'' then [''Mercury'', ''Saturn'']
     else if p = ''Saturn'' then [''Mercury'', ''Venus'']
     else if p = ''Rahu'' then [''Venus'', ''Saturn'', ''Mercury'']
     else if p = ''Ketu'' then [''Mars'', ''Jupiter'', ''Sun'']
     else [])"

definition SHUBHA_NAKSHATRAS :: "string list" where
  "SHUBHA_NAKSHATRAS =
    [''Rohini'', ''Mrigashira'', ''Punarvasu'', ''Pushya'', ''Hasta'', ''Anuradha'',
     ''Uttara Phalguni'', ''Uttara Ashadha'', ''Uttara Bhadrapada'', ''Revati'']"

definition BENEFIC_RASHIS :: "string list" where
  "BENEFIC_RASHIS =
    [''Vrishabha (Taurus)'', ''Karka (Cancer)'', ''Tula (Libra)'', ''Meena (Pisces)'']"

definition BENEFIC_TITHIS :: "string list" where
  "BENEFIC_TITHIS =
    [''Dvitiya'', ''Tritiya'', ''Panchami'', ''Shashthi'', ''Dashami'', ''Ekadashi'',
     ''Trayodashi'', ''Chaturdashi'']"

definition BENEFIC_YOGAS :: "string list" where
  "BENEFIC_YOGAS =
    [''Preeti'', ''Ayushman'', ''Saubhagya'', ''Shobhana'', ''Sukarma'',
     ''Dhriti'', ''Vriddhi'', ''Dhruva'', ''Harshana'', ''Vajra'',
     ''Siddhi'', ''Variyana'', ''Shiva'', ''Siddha'', ''Sadhya'',
     ''Shubha'', ''Shukla'', ''Brahma'', ''Indra'']"

definition BENEFIC_KARANAS :: "string list" where
  "BENEFIC_KARANAS = [''Bava'', ''Balava'', ''Kaulava'', ''Taitila'', ''Gara'', ''Vanija'']"

definition BENEFIC_LAGNAS :: "string list" where
  "BENEFIC_LAGNAS = BENEFIC_RASHIS"

definition BENEFIC_JUPITER_RASHIS :: "string list" where
  "BENEFIC_JUPITER_RASHIS = BENEFIC_RASHIS"

definition BENEFIC_DASHA_LORDS :: "string list" where
  "BENEFIC_DASHA_LORDS = [''Jupiter'', ''Venus'', ''Mercury'', ''Moon'']"

text \<open>A weight table is a Python dict from factor names to integers.\<close>

type_synonym weights = "string \<rightharpoonup> int"

definition WEIGHTS_items :: "(string \<times> int) list" where
  "WEIGHTS_items =
    [(''nakshatra'', 3), (''rashi'', 2), (''pada'', 1), (''tithi'', 2), (''yoga'', 2),
     (''karana'', 1), (''lagna'', 2), (''eighth_house'', 2), (''jupiter'', 2), (''dasha'', 2),
     (''parents_dasha'', 2), (''lagna_friendship'', 3), (''arrival_indicator'', 3),
     (''dasha_sandhi'', 2), (''jupiter_compensation'', 2), (''dasha_clash'', 3),
     (''ninth_house_strength'', 2), (''fourth_house_strength'', 2), (''baby_start_dasha'', 2)]"

definition WEIGHTS :: weights where
  "WEIGHTS = map_of WEIGHTS_items"

text \<open>\<open>weights[k]\<close>: KeyError on a missing key.\<close>

definition lookup :: "weights \<Rightarrow> string \<Rightarrow> error + int" where
  "lookup w k = (case w k of None \<Rightarrow> Inl KeyError | Some v \<Rightarrow> Inr v)"

section \<open>Scoring (muhurat/utils/scoring.py)\<close>

text \<open>
  The factor dict handed to \<open>compute_score\<close> and copied into a candidate. Its keys
  are those of \<open>calculate_astrology\<close> that the scorer or the scanner reads, and
  \<open>parents_dasha\<close>, written by the scanner: \<open>None\<close> or a dict with the two parents'
  dasha lords, read with \<open>.get\<close>.
\<close>

record parents_dasha =
  pd_mother :: "string option"
  pd_father :: "string option"

record astro =
  nakshatra :: string
  pada :: int
  rashi :: string
  tithi :: string
  yoga :: string
  karana :: string
  lagna :: string
  lagna_lord :: string
  eighth_house_rashi :: string
  jupiter_rashi :: string
  jupiter_strong :: "bool option"
  dasha_lord :: string
  astro_ninth_lord :: "string option"
  astro_fourth_lord :: "string option"
  ninth_strength :: int
  fourth_strength :: int
  astro_parents_dasha :: "parents_dasha option"

text \<open>What \<open>calculate_parent_meta\<close> returns for one parent, read with \<open>.get\<close>.\<close>

record parent_meta =
  fifth_lord :: "string option"
  ninth_lord :: "string option"
  pm_jupiter_strong :: "bool option"

record parents_meta =
  mother :: parent_meta
  father :: parent_meta

definition score_nakshatra :: "string \<Rightarrow> weights \<Rightarrow> error + int" where
  "score_nakshatra n w = (if n \<in> set SHUBHA_NAKSHATRAS then lookup w ''nakshatra'' else Inr 0)"

definition score_rashi :: "string \<Rightarrow> weights \<Rightarrow> error + int" where
  "score_rashi r w = (if r \<in> set BENEFIC_RASHIS then lookup w ''rashi'' else Inr 0)"

definition score_pada :: "int \<Rightarrow> weights \<Rightarrow> error + int" where
  "score_pada p w = (if p = 1 \<or> p = 4 then lookup w ''pada'' else Inr 0)"

definition score_tithi :: "string \<Rightarrow> weights \<Rightarrow> error + int" where
  "score_tithi t w = (if t \<in> set BENEFIC_TITHIS then lookup w ''tithi'' else Inr 0)"

definition score_yoga :: "string \<Rightarrow> weights \<Rightarrow> error + int" where
  "score_yoga y w = (if y \<in> set BENEFIC_YOGAS then lookup w ''yoga'' else Inr 0)"

definition score_karana :: "string \<Rightarrow> weights \<Rightarrow> error + int" where
  "score_karana k w = (if k \<in> set BENEFIC_KARANAS then lookup w ''karana'' else Inr 0)"

definition score_lagna :: "string \<Rightarrow> weights \<Rightarrow> error + int" where
  "score_lagna l w = (if l \<in> set BENEFIC_LAGNAS then lookup w ''lagna'' else Inr 0)"

definition score_eighth_house :: "string \<Rightarrow> weights \<Rightarrow> error + int" where
  "score_eighth_house r w =
     (if r \<in> set BENEFIC_LAGNAS then lookup w ''eighth_house'' else Inr 0)"

definition score_jupiter :: "string \<Rightarrow> weights \<Rightarrow> error + int" where
  "score_jupiter r w =
     (if r \<in> set BENEFIC_JUPITER_RASHIS then lookup w ''jupiter'' else Inr 0)"

definition score_dasha :: "string \<Rightarrow> weights \<Rightarrow> error + int" where
  "score_dasha d w = (if d \<in> set BENEFIC_DASHA_LORDS then lookup w ''dasha'' else Inr 0)"

text \<open>\<open>None in BENEFIC_DASHA_LORDS\<close> is false.\<close>

definition benefic_lord :: "string option \<Rightarrow> bool" where
  "benefic_lord s = (case s of None \<Rightarrow> False | Some t \<Rightarrow> t \<in> set BENEFIC_DASHA_LORDS)"

definition score_parents_dasha :: "parents_dasha option \<Rightarrow> weights \<Rightarrow> error + int" where
  "score_parents_dasha pd w =
     (case pd of None \<Rightarrow> Inr 0
      | Some d \<Rightarrow>
          if benefic_lord (pd_mother d) \<and> benefic_lord (pd_father d)
          then lookup w ''parents_dasha'' else Inr 0)"

definition score_lagna_friendship ::
  "string \<Rightarrow> parents_dasha option \<Rightarrow> weights \<Rightarrow> error + int" where
  "score_lagna_friendship baby_lagna_lord pd w =
     (case pd of None \<Rightarrow> Inr 0
      | Some d \<Rightarrow>
          if \<not> truthy (pd_mother d) \<or> \<not> truthy (pd_father d) then Inr 0
          else if the (pd_mother d) \<in> set (PLANET_FRIENDS baby_lagna_lord)
                  \<and> the (pd_father d) \<in> set (PLANET_FRIENDS baby_lagna_lord)
               then lookup w ''lagna_friendship'' else Inr 0)"

definition score_arrival_indicator ::
  "string option \<Rightarrow> string option \<Rightarrow> string option \<Rightarrow> weights \<Rightarrow> error + int" where
  "score_arrival_indicator parent_5th_lord parent_9th_lord parent_dasha w =
     (if \<not> truthy parent_dasha then Inr 0
      else if parent_dasha = parent_5th_lord \<or> parent_dasha = parent_9th_lord
           then lookup w ''arrival_indicator'' else Inr 0)"

definition score_dasha_sandhi :: "string option \<Rightarrow> weights \<Rightarrow> int" where
  "score_dasha_sandhi parent_dasha w = (if \<not> truthy parent_dasha then 0 else 0)"

definition score_jupiter_compensation ::
  "bool option \<Rightarrow> bool option \<Rightarrow> weights \<Rightarrow> error + int" where
  "score_jupiter_compensation parent_jupiter_strong baby_jupiter_strong w =
     (if parent_jupiter_strong = Some False \<and> baby_jupiter_strong = Some True
      then lookup w ''jupiter_compensation'' else Inr 0)"

definition score_dasha_clash :: "string option \<Rightarrow> string \<Rightarrow> weights \<Rightarrow> error + int" where
  "score_dasha_clash parent_dasha baby_start_dasha w =
     (if \<not> truthy parent_dasha \<or> baby_start_dasha = [] then Inr 0
      else if (parent_dasha = Some ''Rahu'' \<and> baby_start_dasha = ''Ketu'')
              \<or> (parent_dasha = Some ''Ketu'' \<and> baby_start_dasha = ''Rahu'')
           then then_r (lookup w ''dasha_clash'') (\<lambda>v. Inr (- v))
           else Inr 0)"

definition score_house_strength :: "int \<Rightarrow> int \<Rightarrow> weights \<Rightarrow> error + int" where
  "score_house_strength ninth fourth w =
     then_r (lookup w ''ninth_house_strength'') (\<lambda>w9.
     then_r (lookup w ''fourth_house_strength'') (\<lambda>w4.
       Inr (ninth * w9 + fourth * w4)))"

definition baby_start_dasha_lord :: "string \<Rightarrow> error + string" where
  "baby_start_dasha_lord n = then_r (index_of NAKSHATRA_LIST n) (\<lambda>idx. getitem NAKSHATRA_LORDS idx)"

definition max_possible :: "weights \<Rightarrow> error + int" where
  "max_possible w =
     sum_results
      [lookup w ''nakshatra'', lookup w ''rashi'', lookup w ''pada'', lookup w ''tithi'',
       lookup w ''yoga'', lookup w ''karana'', lookup w ''lagna'', lookup w ''eighth_house'',
       lookup w ''jupiter'', lookup w ''dasha'', lookup w ''parents_dasha'',
       lookup w ''lagna_friendship'',
       then_r (lookup w ''arrival_indicator'') (\<lambda>v. Inr (v * 2)),
       then_r (lookup w ''jupiter_compensation'') (\<lambda>v. Inr (v * 2)),
       then_r (lookup w ''dasha_clash'') (\<lambda>v. Inr (v * 2)),
       lookup w ''ninth_house_strength'', lookup w ''fourth_house_strength'',
       lookup w ''baby_start_dasha'']"

text \<open>
  Python's \<open>round\<close> on a float: to the nearest integer, ties to the even one. The
  quotient \<open>raw / max_score * 100\<close> is taken in exact arithmetic.
\<close>

definition py_round :: "real \<Rightarrow> int" where
  "py_round x =
     (let f = \<lfloor>x\<rfloor>; d = x - of_int f
      in if d < 1 / 2 then f else if 1 / 2 < d then f + 1
         else if even f then f else f + 1)"

text \<open>The additions made only when \<open>parents_meta\<close> is truthy.\<close>

definition parent_interplay :: "astro \<Rightarrow> parents_meta \<Rightarrow> string \<Rightarrow> weights \<Rightarrow> error + int" where
  "parent_interplay a pm baby_start w =
     (let pd = (case astro_parents_dasha a of
                  None \<Rightarrow> \<lparr>pd_mother = None, pd_father = None\<rparr> | Some d \<Rightarrow> d)
      in sum_results
          [score_lagna_friendship (lagna_lord a) (astro_parents_dasha a) w,
           score_arrival_indicator (fifth_lord (mother pm)) (ninth_lord (mother pm)) (pd_mother pd) w,
           score_arrival_indicator (fifth_lord (father pm)) (ninth_lord (father pm)) (pd_father pd) w,
           score_dasha_clash (pd_mother pd) baby_start w,
           score_dasha_clash (pd_father pd) baby_start w,
           score_jupiter_compensation (pm_jupiter_strong (mother pm)) (jupiter_strong a) w,
           score_jupiter_compensation (pm_jupiter_strong (father pm)) (jupiter_strong a) w])"

definition compute_score :: "astro \<Rightarrow> parents_meta option \<Rightarrow> weights \<Rightarrow> error + int" where
  "compute_score a pmo w =
     then_r (sum_results
        [score_nakshatra (nakshatra a) w, score_rashi (rashi a) w, score_pada (pada a) w,
         score_tithi (tithi a) w, score_yoga (yoga a) w, score_karana (karana a) w,
         score_lagna (lagna a) w, score_eighth_house (eighth_house_rashi a) w,
         score_jupiter (jupiter_rashi a) w, score_dasha (dasha_lord a) w,
         score_parents_dasha (astro_parents_dasha a) w]) (\<lambda>raw0.
     then_r (baby_start_dasha_lord (nakshatra a)) (\<lambda>baby_start.
     then_r (case pmo of None \<Rightarrow> Inr 0 | Some pm \<Rightarrow> parent_interplay a pm baby_start w) (\<lambda>raw1.
     then_r (score_house_strength (ninth_strength a) (fourth_strength a) w) (\<lambda>raw2.
     then_r (if baby_start \<noteq> [] then lookup w ''baby_start_dasha'' else Inr 0) (\<lambda>raw3.
     then_r (max_possible w) (\<lambda>max_score.
       if max_score \<le> 0 then Inr 0
       else Inr (py_round (real_of_int (raw0 + raw1 + raw2 + raw3) / real_of_int max_score * 100))))))))"

subsection \<open>Vocabulary for the score's range\<close>

text \<open>The eighteen keys that \<open>compute_score\<close> and \<open>_max_possible\<close> read.\<close>

definition SCORE_KEYS :: "string list" where
  "SCORE_KEYS =
    [''nakshatra'', ''rashi'', ''pada'', ''tithi'', ''yoga'', ''karana'', ''lagna'',
     ''eighth_house'', ''jupiter'', ''dasha'', ''parents_dasha'', ''lagna_friendship'',
     ''arrival_indicator'', ''jupiter_compensation'', ''dasha_clash'',
     ''ninth_house_strength'', ''fourth_house_strength'', ''baby_start_dasha'']"

definition complete_weights :: "weights \<Rightarrow> bool" where
  "complete_weights w = list_all (\<lambda>k. w k \<noteq> None) SCORE_KEYS"

definition nonneg_weights :: "weights \<Rightarrow> bool" where
  "nonneg_weights w =
     list_all (\<lambda>k. case w k of None \<Rightarrow> False | Some v \<Rightarrow> 0 \<le> v) SCORE_KEYS"

definition zero_weights :: "weights \<Rightarrow> bool" where
  "zero_weights w = list_all (\<lambda>k. w k = Some 0) SCORE_KEYS"

text \<open>The Rahu/Ketu opposition tested by \<open>score_dasha_clash\<close>.\<close>

definition clash_pair :: "string option \<Rightarrow> string \<Rightarrow> bool" where
  "clash_pair parent_dasha baby_start =
     ((parent_dasha = Some ''Rahu'' \<and> baby_start = ''Ketu'')
      \<or> (parent_dasha = Some ''Ketu'' \<and> baby_start = ''Rahu''))"

text \<open>Some parent's dasha-clash penalty is subtracted from the raw score.\<close>

definition dasha_clash_fires :: "astro \<Rightarrow> parents_meta option \<Rightarrow> bool" where
  "dasha_clash_fires a pmo =
     (case pmo of None \<Rightarrow> False
      | Some pm \<Rightarrow>
         (case astro_parents_dasha a of None \<Rightarrow> False
          | Some d \<Rightarrow>
             (case baby_start_dasha_lord (nakshatra a) of Inl e \<Rightarrow> False
              | Inr bs \<Rightarrow> clash_pair (pd_mother d) bs \<or> clash_pair (pd_father d) bs)))"

subsection \<open>Example inputs for the scoring function\<close>

text \<open>
  A moon in Ashwini (ruled by Ketu) with no benefic factor, for parents who both run a
  Rahu dasha at the candidate instant.
\<close>

definition astro_ashwini :: astro where
  "astro_ashwini =
     \<lparr>nakshatra = ''Ashwini'', pada = 2, rashi = ''Mesha (Aries)'',
      tithi = ''Pratipada'', yoga = ''Vishkumbha'', karana = ''Vishti'',
      lagna = ''Mesha (Aries)'', lagna_lord = ''Mars'',
      eighth_house_rashi = ''Vrischika (Scorpio)'', jupiter_rashi = ''Mithuna (Gemini)'',
      jupiter_strong = Some False, dasha_lord = ''Ketu'',
      astro_ninth_lord = Some ''Jupiter'', astro_fourth_lord = Some ''Moon'',
      ninth_strength = 0, fourth_strength = 0,
      astro_parents_dasha = Some \<lparr>pd_mother = Some ''Rahu'', pd_father = Some ''Rahu''\<rparr>\<rparr>"

definition parents_meta_ex :: parents_meta where
  "parents_meta_ex =
     \<lparr>mother = \<lparr>fifth_lord = Some ''Sun'', ninth_lord = Some ''Jupiter'',
                 pm_jupiter_strong = Some True\<rparr>,
      father = \<lparr>fifth_lord = Some ''Moon'', ninth_lord = Some ''Saturn'',
                 pm_jupiter_strong = Some True\<rparr>\<rparr>"

text \<open>A moon in Rohini with most factors benefic and no parents.\<close>

definition astro_rohini :: astro where
  "astro_rohini =
     \<lparr>nakshatra = ''Rohini'', pada = 1, rashi = ''Vrishabha (Taurus)'',
      tithi = ''Panchami'', yoga = ''Siddhi'', karana = ''Bava'',
      lagna = ''Karka (Cancer)'', lagna_lord = ''Moon'',
      eighth_house_rashi = ''Kumbha (Aquarius)'', jupiter_rashi = ''Karka (Cancer)'',
      jupiter_strong = Some True, dasha_lord = ''Moon'',
      astro_ninth_lord = Some ''Jupiter'', astro_fourth_lord = Some ''Venus'',
      ninth_strength = 1, fourth_strength = 0,
      astro_parents_dasha = None\<rparr>"


definition ZERO_WEIGHTS :: weights where
  "ZERO_WEIGHTS = map_of (map (\<lambda>k. (k, 0)) SCORE_KEYS)"

text \<open>Every weight zero but the one of the ninth house.\<close>

definition NINTH_ONLY_WEIGHTS :: weights where
  "NINTH_ONLY_WEIGHTS = ZERO_WEIGHTS(''ninth_house_strength'' \<mapsto> 1)"

section \<open>Rahu Kalam (muhurat/utils/kalam.py)\<close>

text \<open>
  A naive local datetime on the scanner's grid. The date is held as its proleptic
  Gregorian ordinal (\<open>date.toordinal()\<close>, day 1 is 0001-01-01), from which the standard
  library computes \<open>weekday()\<close> as \<open>(toordinal() + 6) % 7\<close>, Monday being 0.
\<close>

record local_datetime =
  dt_ordinal :: nat
  dt_hour :: nat
  dt_minute :: nat

definition weekday :: "local_datetime \<Rightarrow> nat" where
  "weekday local_dt = (dt_ordinal local_dt + 6) mod 7"

text \<open>\<open>RAHU_KALAM\<close>: weekday to (start, end) in hours; no entry for other keys.\<close>

definition RAHU_KALAM :: "nat \<Rightarrow> (real \<times> real) option" where
  "RAHU_KALAM wd =
     (if wd = 0 then Some (7.5, 9.0)
      else if wd = 1 then Some (15.0, 16.5)
      else if wd = 2 then Some (12.0, 13.5)
      else if wd = 3 then Some (13.5, 15.0)
      else if wd = 4 then Some (10.5, 12.0)
      else if wd = 5 then Some (9.0, 10.5)
      else if wd = 6 then Some (16.5, 18.0)
      else None)"

text \<open>
  \<open>hour = local_dt.hour + local_dt.minute / 60.0\<close>, then the chained comparison
  \<open>start <= hour <= end\<close>. The fraction is exact in the model; a float differs from it
  by far less than the distance of any minute from a bound other than the bound itself
  (bounds are whole or half hours, where \<open>minute / 60.0\<close> is exact).
\<close>

definition is_rahu_kalam :: "local_datetime \<Rightarrow> bool" where
  "is_rahu_kalam local_dt =
     (case RAHU_KALAM (weekday local_dt) of
        None \<Rightarrow> False
      | Some (start, end) \<Rightarrow>
          (let hour = real (dt_hour local_dt) + real (dt_minute local_dt) / 60
           in start \<le> hour \<and> hour \<le> end))"

subsection \<open>The interval in minutes after midnight\<close>

text \<open>The weekday's Rahu Kalam bounds as the table gives them, in minutes of the day.\<close>

definition rahu_bounds_minutes :: "nat \<Rightarrow> nat \<times> nat" where
  "rahu_bounds_minutes wd =
     (if wd = 0 then (450, 540)
      else if wd = 1 then (900, 990)
      else if wd = 2 then (720, 810)
      else if wd = 3 then (810, 900)
      else if wd = 4 then (630, 720)
      else if wd = 5 then (540, 630)
      else (990, 1080))"

definition minute_of_day :: "local_datetime \<Rightarrow> nat" where
  "minute_of_day local_dt = 60 * dt_hour local_dt + dt_minute local_dt"

text \<open>Monday 2 June 2025 (ordinal 739404) at 08:00, 09:00 and 09:30.\<close>

definition monday_0800 :: local_datetime where
  "monday_0800 = \<lparr>dt_ordinal = 739404, dt_hour = 8, dt_minute = 0\<rparr>"

definition monday_0900 :: local_datetime where
  "monday_0900 = \<lparr>dt_ordinal = 739404, dt_hour = 9, dt_minute = 0\<rparr>"

definition monday_0930 :: local_datetime where
  "monday_0930 = \<lparr>dt_ordinal = 739404, dt_hour = 9, dt_minute = 30\<rparr>"

section \<open>Traits and weight personalisation (muhurat/utils/qualities.py)\<close>

definition TRAIT_OPTIONS :: "string list" where
  "TRAIT_OPTIONS =
    [''health'', ''intelligence'', ''wealth'', ''leadership'', ''spiritual'',
     ''creativity'', ''stability'', ''compassion'', ''courage'']"

definition TRAIT_PRIORITY_MULTIPLIERS :: "int list" where
  "TRAIT_PRIORITY_MULTIPLIERS = [3, 2, 1]"

text \<open>\<open>TRAIT_WEIGHT_OVERRIDES.get(trait, {})\<close>, each dict in its insertion order.\<close>

definition TRAIT_WEIGHT_OVERRIDES :: "string \<Rightarrow> (string \<times> int) list" where
  "TRAIT_WEIGHT_OVERRIDES trait =
    (if trait = ''health'' then [(''lagna'', 2), (''tithi'', 1)]
     else if trait = ''intelligence'' then [(''yoga'', 2), (''nakshatra'', 1)]
     else if trait = ''wealth'' then [(''rashi'', 2), (''karana'', 1)]
     else if trait = ''leadership'' then [(''lagna'', 2), (''nakshatra'', 1)]
     else if trait = ''spiritual'' then [(''tithi'', 2), (''yoga'', 1)]
     else if trait = ''creativity'' then [(''nakshatra'', 1), (''rashi'', 1)]
     else if trait = ''stability'' then [(''rashi'', 1), (''lagna'', 1)]
     else if trait = ''compassion'' then [(''nakshatra'', 1), (''tithi'', 1)]
     else if trait = ''courage'' then [(''lagna'', 2), (''karana'', 1)]
     else [])"

text \<open>
  \<open>_unique_ordered\<close>: the loop carries the set \<open>seen\<close> and the list \<open>out\<close>; an item is
  appended when it is truthy (a non-empty string) and not yet seen.
\<close>

fun unique_ordered_loop :: "string set \<Rightarrow> string list \<Rightarrow> string list \<Rightarrow> string list" where
  "unique_ordered_loop seen out [] = out"
| "unique_ordered_loop seen out (item # items) =
     (if item \<noteq> [] \<and> item \<notin> seen
      then unique_ordered_loop (insert item seen) (out @ [item]) items
      else unique_ordered_loop seen out items)"

definition unique_ordered :: "string list \<Rightarrow> string list" where
  "unique_ordered items = unique_ordered_loop {} [] items"

text \<open>\<open>normalize_traits\<close>: \<open>None\<close> and the empty list are both falsy.\<close>

definition normalize_traits :: "string list option \<Rightarrow> string list" where
  "normalize_traits traits =
     (case traits of
        None \<Rightarrow> []
      | Some ts \<Rightarrow>
          if ts = [] then []
          else filter (\<lambda>t. t \<in> set TRAIT_OPTIONS) (unique_ordered ts))"

text \<open>
  \<open>llm_map_traits\<close> consults the environment and an external language model. The
  parameter \<open>reply\<close> stands for both: \<open>reply text = None\<close> on every path that returns
  \<open>[]\<close> outright (no API key, blank text, failed import, any exception of the request
  or of the JSON parsing), and \<open>reply text = Some traits\<close> when the parsed answer's
  \<open>traits\<close> list reaches \<open>normalize_traits\<close>.
\<close>

definition llm_map_traits :: "(string \<Rightarrow> string list option) \<Rightarrow> string \<Rightarrow> string list" where
  "llm_map_traits reply text =
     (case reply text of None \<Rightarrow> [] | Some traits \<Rightarrow> normalize_traits (Some traits))"

definition resolve_traits ::
  "(string \<Rightarrow> string list option) \<Rightarrow> string option \<Rightarrow> string list option
     \<Rightarrow> string list option \<Rightarrow> string list" where
  "resolve_traits reply qualities_text qualities_selected qualities_priority =
     (let priority = normalize_traits qualities_priority
      in if priority \<noteq> [] then priority
         else
           (let llm_traits = llm_map_traits reply
                               (case qualities_text of None \<Rightarrow> [] | Some t \<Rightarrow> t);
                selected = normalize_traits qualities_selected
            in unique_ordered (llm_traits @ selected)))"

subsection \<open>Weight tables as objects in a store\<close>

text \<open>
  A weight table is a mutable dict object, and \<open>apply_trait_weights\<close> assigns to keys
  of one. The store holds the dict objects; a reference is a position in it, and
  \<open>dict(base_weights)\<close> allocates a new object with a copy of the contents.
\<close>

type_synonym ref = nat
type_synonym store = "weights list"

definition dict_copy :: "store \<Rightarrow> ref \<Rightarrow> ref \<times> store" where
  "dict_copy s r = (length s, s @ [s ! r])"

text \<open>\<open>weights[k] = weights.get(k, 0) + (v * multiplier)\<close> on the object at \<open>r\<close>.\<close>

definition add_to_key :: "store \<Rightarrow> ref \<Rightarrow> string \<Rightarrow> int \<Rightarrow> store" where
  "add_to_key s r k d =
     s[r := (s ! r)(k \<mapsto> (case (s ! r) k of None \<Rightarrow> 0 | Some x \<Rightarrow> x) + d)]"

fun apply_overrides :: "store \<Rightarrow> ref \<Rightarrow> int \<Rightarrow> (string \<times> int) list \<Rightarrow> store" where
  "apply_overrides s r multiplier [] = s"
| "apply_overrides s r multiplier ((k, v) # overrides) =
     apply_overrides (add_to_key s r k (v * multiplier)) r multiplier overrides"

text \<open>
  The outer loop over \<open>enumerate(traits_ordered[:len(TRAIT_PRIORITY_MULTIPLIERS)])\<close>;
  the index is always below the length of the multiplier list.
\<close>

fun apply_traits_loop :: "store \<Rightarrow> ref \<Rightarrow> (nat \<times> string) list \<Rightarrow> store" where
  "apply_traits_loop s r [] = s"
| "apply_traits_loop s r ((idx, trait) # rest) =
     apply_traits_loop
       (apply_overrides s r (TRAIT_PRIORITY_MULTIPLIERS ! idx) (TRAIT_WEIGHT_OVERRIDES trait))
       r rest"

definition apply_trait_weights :: "store \<Rightarrow> ref \<Rightarrow> string list \<Rightarrow> ref \<times> store" where
  "apply_trait_weights s base_weights traits_ordered =
     (let (weights, s1) = dict_copy s base_weights
      in (weights,
          apply_traits_loop s1 weights
            (enumerate 0 (take (length TRAIT_PRIORITY_MULTIPLIERS) traits_ordered))))"

text \<open>
  The module global \<open>WEIGHTS\<close> is the first object of the store of a running program.
\<close>

definition WEIGHTS_ref :: ref where
  "WEIGHTS_ref = 0"

definition initial_store :: store where
  "initial_store = [WEIGHTS]"

definition get_weights_for_traits :: "store \<Rightarrow> string list \<Rightarrow> ref \<times> store" where
  "get_weights_for_traits s traits_ordered = apply_trait_weights s WEIGHTS_ref traits_ordered"

text \<open>The contents of the table a request works with.\<close>

definition weights_for_traits :: "string list \<Rightarrow> weights" where
  "weights_for_traits traits =
     (let (r, s) = get_weights_for_traits initial_store traits in s ! r)"

text \<open>
  \<open>TRAIT_FILTERS.get(primary, [])\<close> and \<open>passes_trait_filters\<close>: every listed field of
  the primary trait must lie in its allowed set.
\<close>

definition TRAIT_FILTERS :: "string \<Rightarrow> ((astro \<Rightarrow> string) \<times> string list) list" where
  "TRAIT_FILTERS trait =
    (if trait = ''health'' then [(lagna, BENEFIC_LAGNAS), (tithi, BENEFIC_TITHIS)]
     else if trait = ''intelligence'' then [(yoga, BENEFIC_YOGAS), (nakshatra, SHUBHA_NAKSHATRAS)]
     else if trait = ''wealth'' then [(rashi, BENEFIC_RASHIS), (karana, BENEFIC_KARANAS)]
     else if trait = ''leadership'' then [(lagna, BENEFIC_LAGNAS), (nakshatra, SHUBHA_NAKSHATRAS)]
     else if trait = ''spiritual'' then [(tithi, BENEFIC_TITHIS), (yoga, BENEFIC_YOGAS)]
     else if trait = ''creativity'' then [(nakshatra, SHUBHA_NAKSHATRAS)]
     else if trait = ''stability'' then [(rashi, BENEFIC_RASHIS), (lagna, BENEFIC_LAGNAS)]
     else if trait = ''compassion'' then [(tithi, BENEFIC_TITHIS), (nakshatra, SHUBHA_NAKSHATRAS)]
     else if trait = ''courage'' then [(lagna, BENEFIC_LAGNAS), (karana, BENEFIC_KARANAS)]
     else [])"

definition passes_trait_filters :: "astro \<Rightarrow> string list \<Rightarrow> bool" where
  "passes_trait_filters a traits_ordered =
     (case traits_ordered of
        [] \<Rightarrow> True
      | primary # rest \<Rightarrow>
          list_all (\<lambda>(field, allowed). field a \<in> set allowed) (TRAIT_FILTERS primary))"

subsection \<open>Example requests\<close>

definition no_llm :: "string \<Rightarrow> string list option" where
  "no_llm text = None"

definition four_priorities :: "string list" where
  "four_priorities = [''health'', ''intelligence'', ''wealth'', ''leadership'']"

section \<open>Astrological engine (astrology/astrology\_engine.py)\<close>

text \<open>
  Longitudes and years are Python floats; the model computes with them as real numbers.
  \<open>x % m\<close> for a positive \<open>m\<close> has the sign of \<open>m\<close>; \<open>int(x)\<close> truncates towards
  zero; \<open>xs[i]\<close> with an integer index counts a negative \<open>i\<close> from the end.
\<close>

definition pymod :: "real \<Rightarrow> real \<Rightarrow> real" where
  "pymod x m = x - m * of_int \<lfloor>x / m\<rfloor>"

definition py_int :: "real \<Rightarrow> int" where
  "py_int x = (if 0 \<le> x then \<lfloor>x\<rfloor> else \<lceil>x\<rceil>)"

definition py_getitem :: "'a list \<Rightarrow> int \<Rightarrow> error + 'a" where
  "py_getitem xs i =
     (if 0 \<le> i \<and> i < int (length xs) then Inr (xs ! nat i)
      else if - int (length xs) \<le> i \<and> i < 0 then Inr (xs ! nat (int (length xs) + i))
      else Inl IndexError)"

definition NAKSHATRA_SPAN :: real where
  "NAKSHATRA_SPAN = 13 + 1 / 3"

subsection \<open>Dasha timeline\<close>

text \<open>
  A UTC datetime is its POSIX timestamp in seconds. The Swiss Ephemeris call that gives
  the Moon's longitude at an instant is the parameter \<open>ephemeris\<close>;
  \<open>calculate_moon_longitude\<close> reduces its value modulo 360.
\<close>

definition calculate_moon_longitude :: "(real \<Rightarrow> real) \<Rightarrow> real \<Rightarrow> real" where
  "calculate_moon_longitude ephemeris dt_utc = pymod (ephemeris dt_utc) 360"

definition get_nakshatra_index :: "real \<Rightarrow> int" where
  "get_nakshatra_index moon_longitude = py_int (moon_longitude / NAKSHATRA_SPAN)"

text \<open>
  The \<open>while True\<close> loop of \<open>get_dasha_lord\<close>: it leaves by \<open>return\<close> as soon as the
  remaining years fit into the current period.
\<close>

function dasha_walk :: "real \<Rightarrow> nat \<Rightarrow> error + string" where
  "dasha_walk years_elapsed idx =
     (if idx < length DASHA_SEQUENCE
      then (if years_elapsed < real_of_int (snd (DASHA_SEQUENCE ! idx))
            then Inr (fst (DASHA_SEQUENCE ! idx))
            else dasha_walk (years_elapsed - real_of_int (snd (DASHA_SEQUENCE ! idx)))
                   ((idx + 1) mod length DASHA_SEQUENCE))
      else Inl IndexError)"
  by pat_completeness auto

text \<open>
  The loop ends: every period lasts at least one year, so each turn lowers the whole
  years that remain.
\<close>

termination dasha_walk
proof (relation "measure (\<lambda>(y, idx). nat \<lfloor>y\<rfloor>)")
  show "wf (measure (\<lambda>(y, idx). nat \<lfloor>y\<rfloor>))" by simp
next
  fix years_elapsed :: real and idx :: nat
  assume i: "idx < length DASHA_SEQUENCE"
    and ge: "\<not> years_elapsed < real_of_int (snd (DASHA_SEQUENCE ! idx))"
  define d where "d = snd (DASHA_SEQUENCE ! idx)"
  from i have "DASHA_SEQUENCE ! idx \<in> set DASHA_SEQUENCE" by (rule nth_mem)
  then have d1: "1 \<le> d" unfolding d_def by (auto simp: DASHA_SEQUENCE_def)
  from ge have yd: "real_of_int d \<le> years_elapsed" by (simp add: d_def)
  have "\<lfloor>years_elapsed - real_of_int d\<rfloor> = \<lfloor>years_elapsed\<rfloor> - d" by simp
  moreover have "d \<le> \<lfloor>years_elapsed\<rfloor>" using yd by (simp add: le_floor_iff)
  ultimately have "nat \<lfloor>years_elapsed - real_of_int d\<rfloor> < nat \<lfloor>years_elapsed\<rfloor>"
    using d1 by linarith
  then show "((years_elapsed - real_of_int (snd (DASHA_SEQUENCE ! idx)),
               (idx + 1) mod length DASHA_SEQUENCE), years_elapsed, idx)
             \<in> measure (\<lambda>(y, idx). nat \<lfloor>y\<rfloor>)"
    by (simp add: d_def)
qed

declare dasha_walk.simps [simp del]

definition get_dasha_lord :: "(real \<Rightarrow> real) \<Rightarrow> real \<Rightarrow> real \<Rightarrow> error + string" where
  "get_dasha_lord ephemeris birth_dt_utc target_dt_utc =
     (let moon_lon = calculate_moon_longitude ephemeris birth_dt_utc;
          nak_idx = get_nakshatra_index moon_lon
      in then_r (py_getitem NAKSHATRA_LORDS nak_idx) (\<lambda>lord.
         let remainder = pymod moon_lon NAKSHATRA_SPAN;
             fraction_left = (NAKSHATRA_SPAN - remainder) / NAKSHATRA_SPAN;
             seq = map fst DASHA_SEQUENCE
         in then_r (index_of seq lord) (\<lambda>start_idx.
            let start_years = real_of_int (snd (DASHA_SEQUENCE ! start_idx)) * fraction_left;
                elapsed = (target_dt_utc - birth_dt_utc) / (365.25 * 24 * 3600);
                years_elapsed = (if elapsed < 0 then 0 else elapsed)
            in if years_elapsed < start_years then Inr lord
               else dasha_walk (years_elapsed - start_years)
                      ((start_idx + 1) mod length DASHA_SEQUENCE))))"

subsection \<open>Houses\<close>

definition normalize_cusps :: "real list \<Rightarrow> error + real list" where
  "normalize_cusps cusps =
     (if length cusps = 13 then Inr cusps
      else if length cusps = 12 then Inr (0 # cusps)
      else Inl ValueError)"

text \<open>
  The loop \<open>for i in range(1, 13)\<close> over the normalised 13-entry list, and the
  \<open>return 1\<close> behind it.
\<close>

fun house_loop :: "real list \<Rightarrow> real \<Rightarrow> nat list \<Rightarrow> nat" where
  "house_loop cusps lon [] = 1"
| "house_loop cusps lon (i # rest) =
     (let start = pymod (cusps ! i) 360;
          end = (if i = 12 then pymod (cusps ! 1) 360 else pymod (cusps ! (i + 1)) 360)
      in if start \<le> end
         then (if start \<le> lon \<and> lon < end then i else house_loop cusps lon rest)
         else (if start \<le> lon \<or> lon < end then i else house_loop cusps lon rest))"

definition house_for_longitude :: "real list \<Rightarrow> real \<Rightarrow> error + nat" where
  "house_for_longitude cusps lon =
     then_r (normalize_cusps cusps) (\<lambda>cs. Inr (house_loop cs (pymod lon 360) [1..<13]))"

subsection \<open>The ring of twelve cusps\<close>

text \<open>The cusp that opens house \<open>i\<close>, and the house after \<open>i\<close> around the ring.\<close>

definition cusp_at :: "real list \<Rightarrow> nat \<Rightarrow> real" where
  "cusp_at cs i = pymod (cs ! i) 360"

definition next_house :: "nat \<Rightarrow> nat" where
  "next_house i = (if i = 12 then 1 else i + 1)"

text \<open>
  The half-open arc from \<open>s\<close> to \<open>e\<close> in the direction of increasing longitude; it runs
  through 360 when \<open>e < s\<close>.
\<close>

definition in_arc :: "real \<Rightarrow> real \<Rightarrow> real \<Rightarrow> bool" where
  "in_arc s e x = (if s \<le> e then s \<le> x \<and> x < e else s \<le> x \<or> x < e)"

definition house_contains :: "real list \<Rightarrow> nat \<Rightarrow> real \<Rightarrow> bool" where
  "house_contains cs i x = in_arc (cusp_at cs i) (cusp_at cs (next_house i)) x"

text \<open>
  The houses whose arc runs through 360, where the next cusp is smaller. Twelve cusps
  in cyclic order, going once around the circle, have exactly one.
\<close>

definition wrapping_houses :: "real list \<Rightarrow> nat list" where
  "wrapping_houses cs = filter (\<lambda>i. cusp_at cs (next_house i) < cusp_at cs i) [1..<13]"

definition cusp_ring :: "real list \<Rightarrow> bool" where
  "cusp_ring cusps =
     (case normalize_cusps cusps of
        Inl e \<Rightarrow> False
      | Inr cs \<Rightarrow> length (wrapping_houses cs) = 1)"

subsection \<open>Example charts\<close>

text \<open>An ephemeris that puts the Moon at 45 degrees, in Rohini.\<close>

definition moon_at_45 :: "real \<Rightarrow> real" where
  "moon_at_45 t = 45"

text \<open>Equal houses from an ascendant at 300 degrees, as twelve and as thirteen values.\<close>

definition equal_cusps :: "real list" where
  "equal_cusps = [300, 330, 0, 30, 60, 90, 120, 150, 180, 210, 240, 270]"

text \<open>Twelve coincident cusps.\<close>

definition coincident_cusps :: "real list" where
  "coincident_cusps = [0, 0, 0, 0, 0, 0, 0, 0, 0, 0, 0, 0]"

section \<open>Slot scanner (muhurat/engine/muhurat\_engine.py)\<close>

definition TIME_SLOT_MINUTES :: nat where
  "TIME_SLOT_MINUTES = 30"

definition DAY_START_HOUR :: nat where
  "DAY_START_HOUR = 6"

definition DAY_END_HOUR :: nat where
  "DAY_END_HOUR = 20"

definition HARD_CAP_MULTIPLIER :: int where
  "HARD_CAP_MULTIPLIER = 5"

text \<open>
  Dates are proleptic Gregorian ordinals, as in the Rahu Kalam test; \<open>isoformat()\<close> is
  one-to-one on them and, being zero-padded to a fixed width, orders them as the numbers
  do. The same holds for the time string \<open>HH:MM\<close> and the pair of hour and minute.
  \<open>date.max\<close> is 9999-12-31.
\<close>

definition DATE_MAX :: nat where
  "DATE_MAX = 3652059"

text \<open>
  What \<open>_run_scan\<close> reads from the enclosing call: the date range, the resolved traits
  and weights, the hard cap, and the external computations. \<open>ctx_astrology\<close> is
  \<open>calculate_astrology\<close> at the resolved location, for a date, hour and minute;
  \<open>ctx_parents\<close> is \<open>None\<close> without parents, and else holds \<open>parents_meta\<close> and the
  two calls of \<open>calculate_dasha_lord_for_birth\<close> at the candidate instant. Both may
  raise.
\<close>

record scan_ctx =
  ctx_sd :: nat
  ctx_ed :: nat
  ctx_traits :: "string list"
  ctx_weights :: weights
  ctx_hard_cap :: int
  ctx_astrology :: "nat \<Rightarrow> nat \<Rightarrow> nat \<Rightarrow> error + astro"
  ctx_parents :: "(parents_meta \<times> (nat \<Rightarrow> nat \<Rightarrow> nat \<Rightarrow> error + parents_dasha)) option"

text \<open>A result dict: date, time, the factor set with the parents' dasha, and the score.\<close>

record candidate =
  c_date :: nat
  c_hour :: nat
  c_minute :: nat
  c_astro :: astro
  c_score :: int

type_synonym signature =
  "nat \<times> string \<times> int \<times> string \<times> string \<times> string \<times> string \<times> string \<times> string \<times> string \<times> string"

text \<open>The de-duplication key.\<close>

definition signature_of :: "nat \<Rightarrow> astro \<Rightarrow> signature" where
  "signature_of d a =
     (d, nakshatra a, pada a, rashi a, tithi a, yoga a, karana a, lagna a,
      eighth_house_rashi a, jupiter_rashi a, dasha_lord a)"

definition c_signature :: "candidate \<Rightarrow> signature" where
  "c_signature c = signature_of (c_date c) (c_astro c)"

record scan_state =
  results :: "candidate list"
  seen_keys :: "signature set"

text \<open>
  The body of the innermost loop up to the score threshold, for one slot: \<open>None\<close> where
  the body says \<open>continue\<close>, and else the dict that would be appended.
\<close>

definition slot_candidate ::
  "scan_ctx \<Rightarrow> bool \<Rightarrow> int \<Rightarrow> nat \<times> nat \<times> nat \<Rightarrow> error + candidate option" where
  "slot_candidate c strict_filters min_score slot =
     (case slot of (d, hour, minute) \<Rightarrow>
        if is_rahu_kalam \<lparr>dt_ordinal = d, dt_hour = hour, dt_minute = minute\<rparr> then Inr None
        else
          (case ctx_astrology c d hour minute of
             Inl e \<Rightarrow> Inl e
           | Inr a \<Rightarrow>
              (case (case ctx_parents c of
                       None \<Rightarrow> Inr None
                     | Some (pm, dasha_at) \<Rightarrow>
                         (case dasha_at d hour minute of
                            Inl e \<Rightarrow> Inl e | Inr pd \<Rightarrow> Inr (Some pd))) of
                 Inl e \<Rightarrow> Inl e
               | Inr parents_dasha \<Rightarrow>
                  if strict_filters \<and> ctx_traits c \<noteq> []
                       \<and> \<not> passes_trait_filters a (ctx_traits c) then Inr None
                  else
                    (let a' = a\<lparr>astro_parents_dasha := parents_dasha\<rparr>
                     in case compute_score a' (map_option fst (ctx_parents c)) (ctx_weights c) of
                          Inl e \<Rightarrow> Inl e
                        | Inr score \<Rightarrow>
                            if score < min_score then Inr None
                            else Inr (Some \<lparr>c_date = d, c_hour = hour, c_minute = minute,
                                            c_astro = a', c_score = score\<rparr>)))))"

text \<open>
  \<open>for minute in range(0, 60, TIME_SLOT_MINUTES)\<close>: leaves at the first minute past the
  end hour, skips a slot that gives no candidate or a key already seen, and leaves once
  the hard cap is reached after an append.
\<close>

fun minute_loop ::
  "scan_ctx \<Rightarrow> bool \<Rightarrow> int \<Rightarrow> nat \<Rightarrow> nat \<Rightarrow> nat list \<Rightarrow> scan_state \<Rightarrow> error + scan_state" where
  "minute_loop c strict_filters min_score d hour [] st = Inr st"
| "minute_loop c strict_filters min_score d hour (minute # rest) st =
     (if hour = DAY_END_HOUR \<and> 0 < minute then Inr st
      else
        (case slot_candidate c strict_filters min_score (d, hour, minute) of
           Inl e \<Rightarrow> Inl e
         | Inr None \<Rightarrow> minute_loop c strict_filters min_score d hour rest st
         | Inr (Some cand) \<Rightarrow>
             if c_signature cand \<in> seen_keys st
             then minute_loop c strict_filters min_score d hour rest st
             else
               (let st' = \<lparr>results = results st @ [cand],
                           seen_keys = insert (c_signature cand) (seen_keys st)\<rparr>
                in if ctx_hard_cap c \<le> int (length (results st')) then Inr st'
                   else minute_loop c strict_filters min_score d hour rest st')))"

definition minute_marks :: "nat list" where
  "minute_marks = filter (\<lambda>m. m mod TIME_SLOT_MINUTES = 0) [0..<60]"

fun hour_loop ::
  "scan_ctx \<Rightarrow> bool \<Rightarrow> int \<Rightarrow> nat \<Rightarrow> nat list \<Rightarrow> scan_state \<Rightarrow> error + scan_state" where
  "hour_loop c strict_filters min_score d [] st = Inr st"
| "hour_loop c strict_filters min_score d (hour # rest) st =
     (case minute_loop c strict_filters min_score d hour minute_marks st of
        Inl e \<Rightarrow> Inl e
      | Inr st' \<Rightarrow>
          if ctx_hard_cap c \<le> int (length (results st')) then Inr st'
          else hour_loop c strict_filters min_score d rest st')"

text \<open>
  \<open>for d in _date_range(sd, ed)\<close>. When the loop asks the generator for the day after
  \<open>d\<close>, the generator first adds a day to \<open>d\<close>, which overflows at \<open>date.max\<close>.
\<close>

fun day_loop ::
  "scan_ctx \<Rightarrow> bool \<Rightarrow> int \<Rightarrow> nat list \<Rightarrow> scan_state \<Rightarrow> error + scan_state" where
  "day_loop c strict_filters min_score [] st = Inr st"
| "day_loop c strict_filters min_score (d # rest) st =
     (case hour_loop c strict_filters min_score d [DAY_START_HOUR..<DAY_END_HOUR + 1] st of
        Inl e \<Rightarrow> Inl e
      | Inr st' \<Rightarrow>
          if ctx_hard_cap c \<le> int (length (results st')) then Inr st'
          else if d = DATE_MAX then Inl OverflowError
          else day_loop c strict_filters min_score rest st')"

definition date_range :: "nat \<Rightarrow> nat \<Rightarrow> nat list" where
  "date_range start end = [start..<end + 1]"

definition run_scan :: "scan_ctx \<Rightarrow> bool \<Rightarrow> int \<Rightarrow> error + candidate list" where
  "run_scan c strict_filters min_score =
     (case day_loop c strict_filters min_score (date_range (ctx_sd c) (ctx_ed c))
             \<lparr>results = [], seen_keys = {}\<rparr> of
        Inl e \<Rightarrow> Inl e
      | Inr st \<Rightarrow> Inr (results st))"

subsection \<open>The request\<close>

text \<open>
  The arguments of \<open>suggest_muhurats\<close> with the dates parsed, and the three external
  collaborators: the language model behind \<open>resolve_traits\<close>, the astrology computation
  at the resolved location, and the parents' metadata and dasha computation.
\<close>

record request =
  start_date :: nat
  end_date :: nat
  max_results :: int
  qualities_text :: "string option"
  qualities_selected :: "string list option"
  qualities_priority :: "string list option"
  req_reply :: "string \<Rightarrow> string list option"
  req_astrology :: "nat \<Rightarrow> nat \<Rightarrow> nat \<Rightarrow> error + astro"
  req_parents :: "(parents_meta \<times> (nat \<Rightarrow> nat \<Rightarrow> nat \<Rightarrow> error + parents_dasha)) option"

definition request_traits :: "request \<Rightarrow> string list" where
  "request_traits r =
     resolve_traits (req_reply r) (qualities_text r) (qualities_selected r) (qualities_priority r)"

definition request_ctx :: "request \<Rightarrow> scan_ctx" where
  "request_ctx r =
     \<lparr>ctx_sd = start_date r, ctx_ed = end_date r,
      ctx_traits = request_traits r,
      ctx_weights = weights_for_traits (request_traits r),
      ctx_hard_cap = max 50 (max_results r * HARD_CAP_MULTIPLIER),
      ctx_astrology = req_astrology r, ctx_parents = req_parents r\<rparr>"

text \<open>
  The two calls of \<open>_run_scan\<close>. Running a scan is an effect (it calls the external
  computations for every slot), so each call is entered into a log with its arguments.
\<close>

type_synonym scan_log = "(bool \<times> int) list"

definition two_phase :: "scan_ctx \<Rightarrow> error + (candidate list \<times> scan_log)" where
  "two_phase c =
     (case run_scan c True 10 of
        Inl e \<Rightarrow> Inl e
      | Inr found \<Rightarrow>
          if found = []
          then (case run_scan c False 0 of
                  Inl e \<Rightarrow> Inl e
                | Inr relaxed \<Rightarrow> Inr (relaxed, [(True, 10), (False, 0)]))
          else Inr (found, [(True, 10)]))"

text \<open>The sort key \<open>(-x["score"], x["date"], x["time"])\<close>; \<open>list.sort\<close> is stable.\<close>

definition rank_key :: "candidate \<Rightarrow> int \<times> nat \<times> nat \<times> nat" where
  "rank_key x = (- c_score x, c_date x, c_hour x, c_minute x)"

text \<open>\<open>xs[:n]\<close>: a negative \<open>n\<close> counts from the end.\<close>

definition slice_to :: "'a list \<Rightarrow> int \<Rightarrow> 'a list" where
  "slice_to xs n = (if 0 \<le> n then take (nat n) xs else take (nat (int (length xs) + n)) xs)"

record meta =
  traits_used :: "string list"
  weights_used :: weights

definition suggest_muhurats_logged ::
  "request \<Rightarrow> error + ((candidate list \<times> meta) \<times> scan_log)" where
  "suggest_muhurats_logged r =
     (if end_date r < start_date r then Inl ValueError
      else if 365 < end_date r - start_date r then Inl ValueError
      else
        (case two_phase (request_ctx r) of
           Inl e \<Rightarrow> Inl e
         | Inr (found, scans) \<Rightarrow>
             Inr ((slice_to (sort_key rank_key found) (max_results r),
                   \<lparr>traits_used = request_traits r,
                    weights_used = weights_for_traits (request_traits r)\<rparr>),
                  scans)))"

definition suggest_muhurats :: "request \<Rightarrow> error + (candidate list \<times> meta)" where
  "suggest_muhurats r =
     (case suggest_muhurats_logged r of Inl e \<Rightarrow> Inl e | Inr (out, scans) \<Rightarrow> Inr out)"

subsection \<open>Vocabulary for the scanner's properties\<close>

text \<open>The slots of a scan in the order the three loops visit them.\<close>

definition minutes_of :: "nat \<Rightarrow> nat list" where
  "minutes_of hour = takeWhile (\<lambda>m. \<not> (hour = DAY_END_HOUR \<and> 0 < m)) minute_marks"

definition day_slots :: "(nat \<times> nat) list" where
  "day_slots =
     concat (map (\<lambda>h. map (Pair h) (minutes_of h)) [DAY_START_HOUR..<DAY_END_HOUR + 1])"

definition scan_slots :: "scan_ctx \<Rightarrow> (nat \<times> nat \<times> nat) list" where
  "scan_slots c =
     concat (map (\<lambda>d. map (Pair d) day_slots) (date_range (ctx_sd c) (ctx_ed c)))"


text \<open>
  \<open>x\<close> ranks at or before \<open>y\<close>: a higher score, or the same score and an earlier date,
  or the same score and date and a time that is not later.
\<close>

definition ranks_before :: "candidate \<Rightarrow> candidate \<Rightarrow> bool" where
  "ranks_before x y =
     (c_score y < c_score x
      \<or> (c_score x = c_score y
          \<and> (c_date x < c_date y
              \<or> (c_date x = c_date y
                  \<and> (c_hour x < c_hour y
                      \<or> (c_hour x = c_hour y \<and> c_minute x \<le> c_minute y))))))"

definition valid_request :: "request \<Rightarrow> bool" where
  "valid_request r =
     (start_date r \<le> end_date r \<and> end_date r - start_date r \<le> 365
      \<and> 1 \<le> max_results r \<and> max_results r \<le> 50)"

subsection \<open>The scan as one loop over its slots\<close>

text \<open>Appending a candidate and recording its key.\<close>

definition push :: "candidate \<Rightarrow> scan_state \<Rightarrow> scan_state" where
  "push x st =
     \<lparr>results = results st @ [x], seen_keys = insert (c_signature x) (seen_keys st)\<rparr>"

text \<open>
  The three nested loops visit the slots one after the other and leave together once
  the hard cap is reached; \<open>flat_loop\<close> is that single pass, used to reason about them.
\<close>

fun flat_loop ::
  "scan_ctx \<Rightarrow> bool \<Rightarrow> int \<Rightarrow> (nat \<times> nat \<times> nat) list \<Rightarrow> scan_state \<Rightarrow> error + scan_state" where
  "flat_loop c strict_filters min_score [] st = Inr st"
| "flat_loop c strict_filters min_score (slot # rest) st =
     (case slot_candidate c strict_filters min_score slot of
        Inl e \<Rightarrow> Inl e
      | Inr None \<Rightarrow> flat_loop c strict_filters min_score rest st
      | Inr (Some cand) \<Rightarrow>
          if c_signature cand \<in> seen_keys st
          then flat_loop c strict_filters min_score rest st
          else if ctx_hard_cap c \<le> int (length (results (push cand st))) then Inr (push cand st)
          else flat_loop c strict_filters min_score rest (push cand st))"



subsection \<open>Example requests for the scanner\<close>

text \<open>
  A location where the chart is the Rohini one before noon and differs in the pada
  from noon on, and one where it is the Ashwini chart all day.
\<close>

definition astrology_by_hour :: "nat \<Rightarrow> nat \<Rightarrow> nat \<Rightarrow> error + astro" where
  "astrology_by_hour d hour minute =
     Inr (if hour < 12 then astro_rohini else astro_rohini\<lparr>pada := 2\<rparr>)"

definition astrology_ashwini :: "nat \<Rightarrow> nat \<Rightarrow> nat \<Rightarrow> error + astro" where
  "astrology_ashwini d hour minute = Inr astro_ashwini"

text \<open>Sunday 1 June and Monday 2 June 2025, three results wanted, no traits, no parents.\<close>

definition request_two_days :: request where
  "request_two_days =
     \<lparr>start_date = 739403, end_date = 739404, max_results = 3,
      qualities_text = None, qualities_selected = None, qualities_priority = None,
      req_reply = no_llm, req_astrology = astrology_by_hour, req_parents = None\<rparr>"

text \<open>Sunday 1 June 2025 alone, where no slot scores 10.\<close>

definition request_fallback :: request where
  "request_fallback =
     \<lparr>start_date = 739403, end_date = 739403, max_results = 10,
      qualities_text = None, qualities_selected = None, qualities_priority = None,
      req_reply = no_llm, req_astrology = astrology_ashwini, req_parents = None\<rparr>"

definition cand_rohini :: "nat \<Rightarrow> candidate" where
  "cand_rohini d =
     \<lparr>c_date = d, c_hour = 6, c_minute = 0, c_astro = astro_rohini, c_score = 46\<rparr>"

definition cand_rohini_noon :: "nat \<Rightarrow> candidate" where
  "cand_rohini_noon d =
     \<lparr>c_date = d, c_hour = 12, c_minute = 0, c_astro = astro_rohini\<lparr>pada := 2\<rparr>,
      c_score = 43\<rparr>"

definition cand_ashwini :: candidate where
  "cand_ashwini =
     \<lparr>c_date = 739403, c_hour = 6, c_minute = 0,
      c_astro = astro_ashwini\<lparr>astro_parents_dasha := None\<rparr>, c_score = 4\<rparr>"

text \<open>The signatures of the two charts without their date.\<close>

definition rohini_key where
  "rohini_key = snd (signature_of 0 astro_rohini)"

definition rohini_noon_key where
  "rohini_noon_key = snd (signature_of 0 (astro_rohini\<lparr>pada := 2\<rparr>))"

definition ashwini_key where
  "ashwini_key = snd (signature_of 0 astro_ashwini)"

section \<open>Properties of the scoring function\<close>



lemma index_of_mem: "x \<in> set xs \<Longrightarrow> \<exists>i. index_of xs x = Inr i \<and> i < length xs \<and> xs ! i = x"
  by (induction xs) auto

lemma baby_start_ok:
  assumes "n \<in> set NAKSHATRA_LIST"
  shows "\<exists>bs. baby_start_dasha_lord n = Inr bs \<and> bs \<in> set NAKSHATRA_LORDS"
proof -
  from index_of_mem [OF assms] obtain i where
    i: "index_of NAKSHATRA_LIST n = Inr i" "i < length NAKSHATRA_LIST" by blast
  have len: "length NAKSHATRA_LIST = length NAKSHATRA_LORDS"
    by (simp add: NAKSHATRA_LIST_def NAKSHATRA_LORDS_def)
  with i have "i < length NAKSHATRA_LORDS" by simp
  then show ?thesis using i
    by (simp add: baby_start_dasha_lord_def then_r_def getitem_def)
qed

lemma lords_nonempty: "bs \<in> set NAKSHATRA_LORDS \<Longrightarrow> bs \<noteq> []"
  by (auto simp: NAKSHATRA_LORDS_def)

lemma then_r_Inr: "then_r (Inr v) f = f v"
  by (simp add: then_r_def)

lemma complete_weights_key:
  "complete_weights w \<Longrightarrow> k \<in> set SCORE_KEYS \<Longrightarrow> lookup w k = Inr (the (w k))"
  by (auto simp: complete_weights_def list_all_iff lookup_def split: option.splits)

lemma nonneg_weights_key:
  "nonneg_weights w \<Longrightarrow> k \<in> set SCORE_KEYS \<Longrightarrow> 0 \<le> the (w k)"
  by (auto simp: nonneg_weights_def list_all_iff split: option.splits)

lemma zero_weights_key:
  "zero_weights w \<Longrightarrow> k \<in> set SCORE_KEYS \<Longrightarrow> the (w k) = 0"
  by (auto simp: zero_weights_def list_all_iff split: option.splits)

lemma guarded_bounds:
  "lookup w k = Inr v \<Longrightarrow>
     \<exists>t. (if c then lookup w k else Inr 0) = Inr t \<and> (0 \<le> v \<longrightarrow> 0 \<le> t \<and> t \<le> v)"
  by simp

lemma score_parents_dasha_bounds:
  "lookup w ''parents_dasha'' = Inr v \<Longrightarrow>
     \<exists>t. score_parents_dasha pd w = Inr t \<and> (0 \<le> v \<longrightarrow> 0 \<le> t \<and> t \<le> v)"
  by (simp add: score_parents_dasha_def split: option.splits)

lemma score_lagna_friendship_bounds:
  "lookup w ''lagna_friendship'' = Inr v \<Longrightarrow>
     \<exists>t. score_lagna_friendship l pd w = Inr t \<and> (0 \<le> v \<longrightarrow> 0 \<le> t \<and> t \<le> v)"
  by (simp add: score_lagna_friendship_def split: option.splits)

lemma score_arrival_indicator_bounds:
  "lookup w ''arrival_indicator'' = Inr v \<Longrightarrow>
     \<exists>t. score_arrival_indicator p5 p9 d w = Inr t \<and> (0 \<le> v \<longrightarrow> 0 \<le> t \<and> t \<le> v)"
  by (simp add: score_arrival_indicator_def)

lemma score_jupiter_compensation_bounds:
  "lookup w ''jupiter_compensation'' = Inr v \<Longrightarrow>
     \<exists>t. score_jupiter_compensation p b w = Inr t \<and> (0 \<le> v \<longrightarrow> 0 \<le> t \<and> t \<le> v)"
  by (simp add: score_jupiter_compensation_def)

lemma score_dasha_clash_bounds:
  "lookup w ''dasha_clash'' = Inr v \<Longrightarrow>
     \<exists>t. score_dasha_clash p bs w = Inr t
          \<and> (0 \<le> v \<longrightarrow> - v \<le> t \<and> t \<le> 0) \<and> (\<not> clash_pair p bs \<longrightarrow> t = 0)"
  by (simp add: score_dasha_clash_def then_r_def clash_pair_def)

lemma parent_interplay_bounds:
  assumes lf: "lookup w ''lagna_friendship'' = Inr vlf"
    and ai: "lookup w ''arrival_indicator'' = Inr vai"
    and jc: "lookup w ''jupiter_compensation'' = Inr vjc"
    and dc: "lookup w ''dasha_clash'' = Inr vdc"
  shows "\<exists>t. parent_interplay a pm bs w = Inr t
     \<and> (0 \<le> vlf \<and> 0 \<le> vai \<and> 0 \<le> vjc \<and> 0 \<le> vdc \<longrightarrow>
          - (2 * vdc) \<le> t \<and> t \<le> vlf + 2 * vai + 2 * vjc
          \<and> (\<not> dasha_clash_fires a (Some pm) \<and> baby_start_dasha_lord (nakshatra a) = Inr bs
               \<longrightarrow> 0 \<le> t))"
proof -
  define pd where "pd = (case astro_parents_dasha a of
                  None \<Rightarrow> \<lparr>pd_mother = None, pd_father = None\<rparr> | Some d \<Rightarrow> d)"
  obtain t1 where t1: "score_lagna_friendship (lagna_lord a) (astro_parents_dasha a) w = Inr t1"
      "0 \<le> vlf \<longrightarrow> 0 \<le> t1 \<and> t1 \<le> vlf"
    using score_lagna_friendship_bounds [OF lf] by blast
  obtain t2 where t2: "score_arrival_indicator (fifth_lord (mother pm)) (ninth_lord (mother pm)) (pd_mother pd) w = Inr t2"
      "0 \<le> vai \<longrightarrow> 0 \<le> t2 \<and> t2 \<le> vai"
    using score_arrival_indicator_bounds [OF ai] by blast
  obtain t3 where t3: "score_arrival_indicator (fifth_lord (father pm)) (ninth_lord (father pm)) (pd_father pd) w = Inr t3"
      "0 \<le> vai \<longrightarrow> 0 \<le> t3 \<and> t3 \<le> vai"
    using score_arrival_indicator_bounds [OF ai] by blast
  obtain t4 where t4: "score_dasha_clash (pd_mother pd) bs w = Inr t4"
      "0 \<le> vdc \<longrightarrow> - vdc \<le> t4 \<and> t4 \<le> 0" "\<not> clash_pair (pd_mother pd) bs \<longrightarrow> t4 = 0"
    using score_dasha_clash_bounds [OF dc] by blast
  obtain t5 where t5: "score_dasha_clash (pd_father pd) bs w = Inr t5"
      "0 \<le> vdc \<longrightarrow> - vdc \<le> t5 \<and> t5 \<le> 0" "\<not> clash_pair (pd_father pd) bs \<longrightarrow> t5 = 0"
    using score_dasha_clash_bounds [OF dc] by blast
  obtain t6 where t6: "score_jupiter_compensation (pm_jupiter_strong (mother pm)) (jupiter_strong a) w = Inr t6"
      "0 \<le> vjc \<longrightarrow> 0 \<le> t6 \<and> t6 \<le> vjc"
    using score_jupiter_compensation_bounds [OF jc] by blast
  obtain t7 where t7: "score_jupiter_compensation (pm_jupiter_strong (father pm)) (jupiter_strong a) w = Inr t7"
      "0 \<le> vjc \<longrightarrow> 0 \<le> t7 \<and> t7 \<le> vjc"
    using score_jupiter_compensation_bounds [OF jc] by blast
  define t where "t = t1 + (t2 + (t3 + (t4 + (t5 + (t6 + (t7 + 0))))))"
  have val: "parent_interplay a pm bs w = Inr t"
    unfolding parent_interplay_def pd_def [symmetric] Let_def t_def
    by (simp add: t1(1) t2(1) t3(1) t4(1) t5(1) t6(1) t7(1))
  have noclash: "t4 = 0 \<and> t5 = 0"
    if "\<not> dasha_clash_fires a (Some pm)" "baby_start_dasha_lord (nakshatra a) = Inr bs"
  proof (cases "astro_parents_dasha a")
    case None
    then have "pd_mother pd = None" "pd_father pd = None" by (simp_all add: pd_def)
    then have "\<not> clash_pair (pd_mother pd) bs" "\<not> clash_pair (pd_father pd) bs"
      by (simp_all add: clash_pair_def)
    with t4(3) t5(3) show ?thesis by simp
  next
    case (Some d)
    then have "pd = d" by (simp add: pd_def)
    with that Some have "\<not> clash_pair (pd_mother pd) bs" "\<not> clash_pair (pd_father pd) bs"
      by (simp_all add: dasha_clash_fires_def)
    with t4(3) t5(3) show ?thesis by simp
  qed
  have bounds: "- (2 * vdc) \<le> t \<and> t \<le> vlf + 2 * vai + 2 * vjc
          \<and> (\<not> dasha_clash_fires a (Some pm) \<and> baby_start_dasha_lord (nakshatra a) = Inr bs
               \<longrightarrow> 0 \<le> t)"
    if nn: "0 \<le> vlf \<and> 0 \<le> vai \<and> 0 \<le> vjc \<and> 0 \<le> vdc"
  proof (intro conjI impI)
    show "- (2 * vdc) \<le> t"
      unfolding t_def using nn t1(2) t2(2) t3(2) t4(2) t5(2) t6(2) t7(2) by linarith
    show "t \<le> vlf + 2 * vai + 2 * vjc"
      unfolding t_def using nn t1(2) t2(2) t3(2) t4(2) t5(2) t6(2) t7(2) by linarith
    show "0 \<le> t"
      if "\<not> dasha_clash_fires a (Some pm) \<and> baby_start_dasha_lord (nakshatra a) = Inr bs"
      unfolding t_def using noclash that nn t1(2) t2(2) t3(2) t6(2) t7(2) by simp
  qed
  from val bounds show ?thesis by blast
qed


lemma compute_score_value:
  assumes cw: "complete_weights w" and n: "nakshatra a \<in> set NAKSHATRA_LIST"
  shows "\<exists>raw m. compute_score a pmo w
            = Inr (if m \<le> 0 then 0 else py_round (real_of_int raw / real_of_int m * 100))
     \<and> max_possible w = Inr m
     \<and> (zero_weights w \<longrightarrow> m = 0)
     \<and> (nonneg_weights w \<longrightarrow> 0 \<le> m)
     \<and> (nonneg_weights w \<and> 0 \<le> ninth_strength a \<and> 0 \<le> fourth_strength a \<longrightarrow>
           - m \<le> raw \<and> (\<not> dasha_clash_fires a pmo \<longrightarrow> 0 \<le> raw))
     \<and> (nonneg_weights w \<and> ninth_strength a \<le> 1 \<and> fourth_strength a \<le> 1 \<longrightarrow> raw \<le> m)"
proof -
  define V where "V = (\<lambda>k. the (w k))"
  have L: "lookup w k = Inr (V k)" if "k \<in> set SCORE_KEYS" for k
    unfolding V_def using cw that by (rule complete_weights_key)
  have N: "0 \<le> V k" if "nonneg_weights w" "k \<in> set SCORE_KEYS" for k
    unfolding V_def using that by (rule nonneg_weights_key)
  have Z: "V k = 0" if "zero_weights w" "k \<in> set SCORE_KEYS" for k
    unfolding V_def using that by (rule zero_weights_key)
  have K1: "''nakshatra'' \<in> set SCORE_KEYS" by (simp add: SCORE_KEYS_def)
  note L1 = L [OF K1]
  have K2: "''rashi'' \<in> set SCORE_KEYS" by (simp add: SCORE_KEYS_def)
  note L2 = L [OF K2]
  have K3: "''pada'' \<in> set SCORE_KEYS" by (simp add: SCORE_KEYS_def)
  note L3 = L [OF K3]
  have K4: "''tithi'' \<in> set SCORE_KEYS" by (simp add: SCORE_KEYS_def)
  note L4 = L [OF K4]
  have K5: "''yoga'' \<in> set SCORE_KEYS" by (simp add: SCORE_KEYS_def)
  note L5 = L [OF K5]
  have K6: "''karana'' \<in> set SCORE_KEYS" by (simp add: SCORE_KEYS_def)
  note L6 = L [OF K6]
  have K7: "''lagna'' \<in> set SCORE_KEYS" by (simp add: SCORE_KEYS_def)
  note L7 = L [OF K7]
  have K8: "''eighth_house'' \<in> set SCORE_KEYS" by (simp add: SCORE_KEYS_def)
  note L8 = L [OF K8]
  have K9: "''jupiter'' \<in> set SCORE_KEYS" by (simp add: SCORE_KEYS_def)
  note L9 = L [OF K9]
  have K10: "''dasha'' \<in> set SCORE_KEYS" by (simp add: SCORE_KEYS_def)
  note L10 = L [OF K10]
  have K11: "''parents_dasha'' \<in> set SCORE_KEYS" by (simp add: SCORE_KEYS_def)
  note L11 = L [OF K11]
  have K12: "''lagna_friendship'' \<in> set SCORE_KEYS" by (simp add: SCORE_KEYS_def)
  note L12 = L [OF K12]
  have K13: "''arrival_indicator'' \<in> set SCORE_KEYS" by (simp add: SCORE_KEYS_def)
  note L13 = L [OF K13]
  have K14: "''jupiter_compensation'' \<in> set SCORE_KEYS" by (simp add: SCORE_KEYS_def)
  note L14 = L [OF K14]
  have K15: "''dasha_clash'' \<in> set SCORE_KEYS" by (simp add: SCORE_KEYS_def)
  note L15 = L [OF K15]
  have K16: "''ninth_house_strength'' \<in> set SCORE_KEYS" by (simp add: SCORE_KEYS_def)
  note L16 = L [OF K16]
  have K17: "''fourth_house_strength'' \<in> set SCORE_KEYS" by (simp add: SCORE_KEYS_def)
  note L17 = L [OF K17]
  have K18: "''baby_start_dasha'' \<in> set SCORE_KEYS" by (simp add: SCORE_KEYS_def)
  note L18 = L [OF K18]
  obtain g1 where g1: "score_nakshatra (nakshatra a) w = Inr g1" "0 \<le> V ''nakshatra'' \<longrightarrow> 0 \<le> g1 \<and> g1 \<le> V ''nakshatra''"
    unfolding score_nakshatra_def using guarded_bounds [OF L1] by blast
  obtain g2 where g2: "score_rashi (rashi a) w = Inr g2" "0 \<le> V ''rashi'' \<longrightarrow> 0 \<le> g2 \<and> g2 \<le> V ''rashi''"
    unfolding score_rashi_def using guarded_bounds [OF L2] by blast
  obtain g3 where g3: "score_pada (pada a) w = Inr g3" "0 \<le> V ''pada'' \<longrightarrow> 0 \<le> g3 \<and> g3 \<le> V ''pada''"
    unfolding score_pada_def using guarded_bounds [OF L3] by blast
  obtain g4 where g4: "score_tithi (tithi a) w = Inr g4" "0 \<le> V ''tithi'' \<longrightarrow> 0 \<le> g4 \<and> g4 \<le> V ''tithi''"
    unfolding score_tithi_def using guarded_bounds [OF L4] by blast
  obtain g5 where g5: "score_yoga (yoga a) w = Inr g5" "0 \<le> V ''yoga'' \<longrightarrow> 0 \<le> g5 \<and> g5 \<le> V ''yoga''"
    unfolding score_yoga_def using guarded_bounds [OF L5] by blast
  obtain g6 where g6: "score_karana (karana a) w = Inr g6" "0 \<le> V ''karana'' \<longrightarrow> 0 \<le> g6 \<and> g6 \<le> V ''karana''"
    unfolding score_karana_def using guarded_bounds [OF L6] by blast
  obtain g7 where g7: "score_lagna (lagna a) w = Inr g7" "0 \<le> V ''lagna'' \<longrightarrow> 0 \<le> g7 \<and> g7 \<le> V ''lagna''"
    unfolding score_lagna_def using guarded_bounds [OF L7] by blast
  obtain g8 where g8: "score_eighth_house (eighth_house_rashi a) w = Inr g8" "0 \<le> V ''eighth_house'' \<longrightarrow> 0 \<le> g8 \<and> g8 \<le> V ''eighth_house''"
    unfolding score_eighth_house_def using guarded_bounds [OF L8] by blast
  obtain g9 where g9: "score_jupiter (jupiter_rashi a) w = Inr g9" "0 \<le> V ''jupiter'' \<longrightarrow> 0 \<le> g9 \<and> g9 \<le> V ''jupiter''"
    unfolding score_jupiter_def using guarded_bounds [OF L9] by blast
  obtain g10 where g10: "score_dasha (dasha_lord a) w = Inr g10" "0 \<le> V ''dasha'' \<longrightarrow> 0 \<le> g10 \<and> g10 \<le> V ''dasha''"
    unfolding score_dasha_def using guarded_bounds [OF L10] by blast
  obtain g11 where g11: "score_parents_dasha (astro_parents_dasha a) w = Inr g11"
      "0 \<le> V ''parents_dasha'' \<longrightarrow> 0 \<le> g11 \<and> g11 \<le> V ''parents_dasha''"
    using score_parents_dasha_bounds [OF L11] by blast
  define raw0 where "raw0 = g1 + (g2 + (g3 + (g4 + (g5 + (g6 + (g7 + (g8 + (g9 + (g10 + (g11 + 0))))))))))"
  have r0: "sum_results
        [score_nakshatra (nakshatra a) w, score_rashi (rashi a) w, score_pada (pada a) w,
         score_tithi (tithi a) w, score_yoga (yoga a) w, score_karana (karana a) w,
         score_lagna (lagna a) w, score_eighth_house (eighth_house_rashi a) w,
         score_jupiter (jupiter_rashi a) w, score_dasha (dasha_lord a) w,
         score_parents_dasha (astro_parents_dasha a) w] = Inr raw0"
    unfolding raw0_def
    by (simp add: g1(1) g2(1) g3(1) g4(1) g5(1) g6(1) g7(1) g8(1) g9(1) g10(1) g11(1))
  obtain bs where bs: "baby_start_dasha_lord (nakshatra a) = Inr bs" "bs \<in> set NAKSHATRA_LORDS"
    using baby_start_ok [OF n] by blast
  have bsne: "bs \<noteq> []" using bs(2) by (rule lords_nonempty)
  obtain raw1 where r1:
      "(case pmo of None \<Rightarrow> Inr 0 | Some pm \<Rightarrow> parent_interplay a pm bs w) = Inr raw1"
      "0 \<le> V ''lagna_friendship'' \<and> 0 \<le> V ''arrival_indicator''
         \<and> 0 \<le> V ''jupiter_compensation'' \<and> 0 \<le> V ''dasha_clash'' \<longrightarrow>
          - (2 * V ''dasha_clash'') \<le> raw1
          \<and> raw1 \<le> V ''lagna_friendship'' + 2 * V ''arrival_indicator'' + 2 * V ''jupiter_compensation''
          \<and> (\<not> dasha_clash_fires a pmo \<longrightarrow> 0 \<le> raw1)"
  proof (cases pmo)
    case None
    show ?thesis by (rule that [of 0]) (simp_all add: None)
  next
    case (Some pm)
    from parent_interplay_bounds [OF L12 L13 L14 L15, of a pm bs] obtain t where
      t: "parent_interplay a pm bs w = Inr t"
      "0 \<le> V ''lagna_friendship'' \<and> 0 \<le> V ''arrival_indicator''
         \<and> 0 \<le> V ''jupiter_compensation'' \<and> 0 \<le> V ''dasha_clash'' \<longrightarrow>
          - (2 * V ''dasha_clash'') \<le> t
          \<and> t \<le> V ''lagna_friendship'' + 2 * V ''arrival_indicator'' + 2 * V ''jupiter_compensation''
          \<and> (\<not> dasha_clash_fires a (Some pm) \<and> baby_start_dasha_lord (nakshatra a) = Inr bs
               \<longrightarrow> 0 \<le> t)"
      by blast
    show ?thesis
      by (rule that [of t]) (use t bs(1) in \<open>simp_all add: Some\<close>)
  qed
  define raw2 where "raw2 = ninth_strength a * V ''ninth_house_strength''
                            + fourth_strength a * V ''fourth_house_strength''"
  have r2: "score_house_strength (ninth_strength a) (fourth_strength a) w = Inr raw2"
    by (simp add: score_house_strength_def then_r_def L16 L17 raw2_def)
  have r3: "(if bs \<noteq> [] then lookup w ''baby_start_dasha'' else Inr 0) = Inr (V ''baby_start_dasha'')"
    using bsne by (simp add: L18)
  define m where "m = V ''nakshatra'' + (V ''rashi'' + (V ''pada'' + (V ''tithi'' + (V ''yoga''
     + (V ''karana'' + (V ''lagna'' + (V ''eighth_house'' + (V ''jupiter'' + (V ''dasha''
     + (V ''parents_dasha'' + (V ''lagna_friendship'' + (V ''arrival_indicator'' * 2
     + (V ''jupiter_compensation'' * 2 + (V ''dasha_clash'' * 2 + (V ''ninth_house_strength''
     + (V ''fourth_house_strength'' + (V ''baby_start_dasha'' + 0)))))))))))))))))"
  have mp: "max_possible w = Inr m"
    unfolding max_possible_def m_def
    by (simp add: then_r_def L1 L2 L3 L4 L5 L6 L7 L8 L9 L10 L11 L12 L13 L14 L15 L16 L17 L18)
  define raw where "raw = raw0 + raw1 + raw2 + V ''baby_start_dasha''"
  have "compute_score a pmo w
            = (if m \<le> 0 then Inr 0
               else Inr (py_round (real_of_int (raw0 + raw1 + raw2 + V ''baby_start_dasha'')
                                     / real_of_int m * 100)))"
    by (simp only: compute_score_def r0 then_r_Inr bs(1) r1(1) r2 r3 mp)
  then have cs: "compute_score a pmo w
            = Inr (if m \<le> 0 then 0 else py_round (real_of_int raw / real_of_int m * 100))"
    by (simp add: raw_def)
  have mz: "m = 0" if "zero_weights w"
    unfolding m_def using that
    by (simp add: Z K1 K2 K3 K4 K5 K6 K7 K8 K9 K10 K11 K12 K13 K14 K15 K16 K17 K18)
  have nn: "0 \<le> V ''nakshatra''" "0 \<le> V ''rashi''" "0 \<le> V ''pada''" "0 \<le> V ''tithi''"
      "0 \<le> V ''yoga''" "0 \<le> V ''karana''" "0 \<le> V ''lagna''" "0 \<le> V ''eighth_house''"
      "0 \<le> V ''jupiter''" "0 \<le> V ''dasha''" "0 \<le> V ''parents_dasha''"
      "0 \<le> V ''lagna_friendship''" "0 \<le> V ''arrival_indicator''"
      "0 \<le> V ''jupiter_compensation''" "0 \<le> V ''dasha_clash''"
      "0 \<le> V ''ninth_house_strength''" "0 \<le> V ''fourth_house_strength''"
      "0 \<le> V ''baby_start_dasha''"
    if "nonneg_weights w"
    using that by (simp_all add: N K1 K2 K3 K4 K5 K6 K7 K8 K9 K10 K11 K12 K13 K14 K15 K16 K17 K18)
  have mnn: "0 \<le> m" if "nonneg_weights w"
    unfolding m_def using nn [OF that] by linarith
  have lower: "- m \<le> raw \<and> (\<not> dasha_clash_fires a pmo \<longrightarrow> 0 \<le> raw)"
    if h: "nonneg_weights w \<and> 0 \<le> ninth_strength a \<and> 0 \<le> fourth_strength a"
  proof -
    from h have nw: "nonneg_weights w" by simp
    note nnw = nn [OF nw]
    have h2: "0 \<le> raw2" unfolding raw2_def using h nnw by simp
    have h0: "0 \<le> raw0" unfolding raw0_def
      using nnw g1(2) g2(2) g3(2) g4(2) g5(2) g6(2) g7(2) g8(2) g9(2) g10(2) g11(2) by linarith
    have h1: "- (2 * V ''dasha_clash'') \<le> raw1" "\<not> dasha_clash_fires a pmo \<longrightarrow> 0 \<le> raw1"
      using r1(2) nnw by simp_all
    have "- m \<le> raw" unfolding m_def raw_def using h0 h1(1) h2 nnw by linarith
    moreover have "0 \<le> raw" if "\<not> dasha_clash_fires a pmo"
      unfolding raw_def using h0 h1(2) that h2 nnw by linarith
    ultimately show ?thesis by simp
  qed
  have upper: "raw \<le> m"
    if h: "nonneg_weights w \<and> ninth_strength a \<le> 1 \<and> fourth_strength a \<le> 1"
  proof -
    from h have nw: "nonneg_weights w" by simp
    note nnw = nn [OF nw]
    have a9: "ninth_strength a * V ''ninth_house_strength'' \<le> V ''ninth_house_strength''"
      using mult_right_mono [of "ninth_strength a" 1 "V ''ninth_house_strength''"] h nnw(16) by simp
    have a4: "fourth_strength a * V ''fourth_house_strength'' \<le> V ''fourth_house_strength''"
      using mult_right_mono [of "fourth_strength a" 1 "V ''fourth_house_strength''"] h nnw(17) by simp
    have h2: "raw2 \<le> V ''ninth_house_strength'' + V ''fourth_house_strength''"
      unfolding raw2_def using a9 a4 by linarith
    have h0: "raw0 \<le> V ''nakshatra'' + V ''rashi'' + V ''pada'' + V ''tithi'' + V ''yoga''
       + V ''karana'' + V ''lagna'' + V ''eighth_house'' + V ''jupiter'' + V ''dasha''
       + V ''parents_dasha''" unfolding raw0_def
      using nnw g1(2) g2(2) g3(2) g4(2) g5(2) g6(2) g7(2) g8(2) g9(2) g10(2) g11(2) by linarith
    have h1: "raw1 \<le> V ''lagna_friendship'' + 2 * V ''arrival_indicator'' + 2 * V ''jupiter_compensation''"
      using r1(2) nnw by simp
    show ?thesis unfolding m_def raw_def using h0 h1 h2 nnw by linarith
  qed
  from cs mp mz mnn lower upper show ?thesis by blast
qed




lemmas score_defs =
  compute_score_def then_r_def score_nakshatra_def score_rashi_def score_pada_def
  score_tithi_def score_yoga_def score_karana_def score_lagna_def score_eighth_house_def
  score_jupiter_def score_dasha_def score_parents_dasha_def score_lagna_friendship_def
  score_arrival_indicator_def score_jupiter_compensation_def score_dasha_clash_def
  score_house_strength_def baby_start_dasha_lord_def max_possible_def parent_interplay_def
  lookup_def truthy_def benefic_lord_def getitem_def NAKSHATRA_LIST_def NAKSHATRA_LORDS_def
  SHUBHA_NAKSHATRAS_def BENEFIC_RASHIS_def BENEFIC_TITHIS_def BENEFIC_YOGAS_def
  BENEFIC_KARANAS_def BENEFIC_LAGNAS_def BENEFIC_JUPITER_RASHIS_def BENEFIC_DASHA_LORDS_def
  PLANET_FRIENDS_def py_round_def Let_def

lemmas weights_defs =
  WEIGHTS_def WEIGHTS_items_def ZERO_WEIGHTS_def NINTH_ONLY_WEIGHTS_def SCORE_KEYS_def
  complete_weights_def nonneg_weights_def zero_weights_def





subsection \<open>The dasha-sandhi factor\<close>

lemma lookup_cong:
  "w1 k = w2 k \<Longrightarrow> lookup w1 k = lookup w2 k"
  by (simp add: lookup_def)

text \<open>
  Claim C10. \<open>score_dasha_sandhi\<close> is 0 on every input, and the score does not depend
  on the \<open>dasha_sandhi\<close> weight: two weight tables that agree on every other key give
  the same result of \<open>compute_score\<close>, the same integer or the same exception, on
  every factor set and parent metadata. (\<open>compute_score\<close> has no call of
  \<open>score_dasha_sandhi\<close> and \<open>_max_possible\<close> does not read the key.)
\<close>

theorem dasha_sandhi_never_contributes:
  assumes agree: "\<And>k. k \<noteq> ''dasha_sandhi'' \<Longrightarrow> w1 k = w2 k"
  shows "score_dasha_sandhi parent_dasha w1 = 0
         \<and> compute_score a pmo w1 = compute_score a pmo w2"
proof
  show "score_dasha_sandhi parent_dasha w1 = 0"
    by (simp add: score_dasha_sandhi_def)
  have L: "lookup w1 k = lookup w2 k" if "k \<noteq> ''dasha_sandhi''" for k
    using agree [OF that] by (rule lookup_cong)
  have K:
    "lookup w1 ''nakshatra'' = lookup w2 ''nakshatra''"
    "lookup w1 ''rashi'' = lookup w2 ''rashi''"
    "lookup w1 ''pada'' = lookup w2 ''pada''"
    "lookup w1 ''tithi'' = lookup w2 ''tithi''"
    "lookup w1 ''yoga'' = lookup w2 ''yoga''"
    "lookup w1 ''karana'' = lookup w2 ''karana''"
    "lookup w1 ''lagna'' = lookup w2 ''lagna''"
    "lookup w1 ''eighth_house'' = lookup w2 ''eighth_house''"
    "lookup w1 ''jupiter'' = lookup w2 ''jupiter''"
    "lookup w1 ''dasha'' = lookup w2 ''dasha''"
    "lookup w1 ''parents_dasha'' = lookup w2 ''parents_dasha''"
    "lookup w1 ''lagna_friendship'' = lookup w2 ''lagna_friendship''"
    "lookup w1 ''arrival_indicator'' = lookup w2 ''arrival_indicator''"
    "lookup w1 ''jupiter_compensation'' = lookup w2 ''jupiter_compensation''"
    "lookup w1 ''dasha_clash'' = lookup w2 ''dasha_clash''"
    "lookup w1 ''ninth_house_strength'' = lookup w2 ''ninth_house_strength''"
    "lookup w1 ''fourth_house_strength'' = lookup w2 ''fourth_house_strength''"
    "lookup w1 ''baby_start_dasha'' = lookup w2 ''baby_start_dasha''"
    by (simp_all add: L)
  show "compute_score a pmo w1 = compute_score a pmo w2"
    unfolding compute_score_def max_possible_def score_house_strength_def
      parent_interplay_def score_lagna_friendship_def score_arrival_indicator_def
      score_dasha_clash_def score_jupiter_compensation_def
      score_nakshatra_def score_rashi_def score_pada_def score_tithi_def
      score_yoga_def score_karana_def score_lagna_def score_eighth_house_def
      score_jupiter_def score_dasha_def score_parents_dasha_def K ..
qed

theorem dasha_sandhi_never_contributes_witness:
  "score_dasha_sandhi (Some ''Rahu'') WEIGHTS = 0
   \<and> compute_score astro_ashwini (Some parents_meta_ex) WEIGHTS
       = compute_score astro_ashwini (Some parents_meta_ex) (WEIGHTS(''dasha_sandhi'' \<mapsto> 50))"
  by (rule dasha_sandhi_never_contributes) simp

section \<open>Properties of the Rahu Kalam test\<close>

lemma weekday_less: "weekday local_dt < 7"
  by (simp add: weekday_def)

lemma hour_le_iff:
  "(real h + real m / 60 \<le> real k / 60) = (60 * h + m \<le> k)"
  "(real k / 60 \<le> real h + real m / 60) = (k \<le> 60 * h + m)"
proof -
  have e: "real (60 * h + m) = 60 * real h + real m" by simp
  have "(real h + real m / 60 \<le> real k / 60) = (real (60 * h + m) \<le> real k)"
    unfolding e by (rule iffI; linarith)
  then show "(real h + real m / 60 \<le> real k / 60) = (60 * h + m \<le> k)"
    by (simp only: of_nat_le_iff)
  have "(real k / 60 \<le> real h + real m / 60) = (real k \<le> real (60 * h + m))"
    unfolding e by (rule iffI; linarith)
  then show "(real k / 60 \<le> real h + real m / 60) = (k \<le> 60 * h + m)"
    by (simp only: of_nat_le_iff)
qed

lemma rahu_table_minutes:
  assumes "wd < 7"
  shows "RAHU_KALAM wd = Some (real (fst (rahu_bounds_minutes wd)) / 60,
                               real (snd (rahu_bounds_minutes wd)) / 60)"
proof -
  from assms have "wd = 0 \<or> wd = 1 \<or> wd = 2 \<or> wd = 3 \<or> wd = 4 \<or> wd = 5 \<or> wd = 6"
    by arith
  then show ?thesis
    by (elim disjE) (simp_all add: RAHU_KALAM_def rahu_bounds_minutes_def)
qed

lemma is_rahu_kalam_minutes:
  "is_rahu_kalam local_dt =
     (fst (rahu_bounds_minutes (weekday local_dt)) \<le> minute_of_day local_dt
      \<and> minute_of_day local_dt \<le> snd (rahu_bounds_minutes (weekday local_dt)))"
  unfolding is_rahu_kalam_def rahu_table_minutes [OF weekday_less] minute_of_day_def Let_def
  by (simp only: option.case prod.case hour_le_iff)

text \<open>
  Claim C2, as the code has it. A slot is skipped as Rahu Kalam exactly when its minute
  of the day lies in the weekday's closed interval: from the start bound to the end
  bound, both included. The comparison is \<open>start <= hour <= end\<close>, so a slot exactly at
  the end hour is skipped too.
\<close>

theorem is_rahu_kalam_closed_interval:
  "is_rahu_kalam local_dt =
     (fst (rahu_bounds_minutes (weekday local_dt)) \<le> minute_of_day local_dt
      \<and> minute_of_day local_dt \<le> snd (rahu_bounds_minutes (weekday local_dt)))"
  by (rule is_rahu_kalam_minutes)

theorem is_rahu_kalam_closed_interval_witness:
  "is_rahu_kalam monday_0800 \<and> is_rahu_kalam monday_0900 \<and> \<not> is_rahu_kalam monday_0930"
  unfolding is_rahu_kalam_closed_interval
  by (simp add: monday_0800_def monday_0900_def monday_0930_def weekday_def
      rahu_bounds_minutes_def minute_of_day_def)

text \<open>
  Monday's interval is 7.5 to 9.0; the slot of Monday 09:00, the end of the interval, is
  on the scanner's grid and is skipped, where a half-open interval would keep it.
\<close>

theorem is_rahu_kalam_end_counterexample:
  "weekday monday_0900 = 0 \<and> RAHU_KALAM 0 = Some (7.5, 9.0)
   \<and> dt_hour monday_0900 = 9 \<and> dt_minute monday_0900 = 0
   \<and> is_rahu_kalam monday_0900"
  by (simp add: is_rahu_kalam_def monday_0900_def weekday_def RAHU_KALAM_def)

section \<open>Properties of the trait resolver and of weight personalisation\<close>

lemma unique_ordered_loop_distinct:
  "distinct out \<Longrightarrow> set out \<subseteq> seen \<Longrightarrow> distinct (unique_ordered_loop seen out items)"
proof (induction items arbitrary: seen out)
  case Nil
  then show ?case by simp
next
  case (Cons item items)
  show ?case
  proof (cases "item \<noteq> [] \<and> item \<notin> seen")
    case True
    with Cons.prems have "distinct (out @ [item])" "set (out @ [item]) \<subseteq> insert item seen"
      by auto
    then have "distinct (unique_ordered_loop (insert item seen) (out @ [item]) items)"
      by (rule Cons.IH)
    with True show ?thesis by simp
  next
    case False
    with Cons.IH [OF Cons.prems] show ?thesis by auto
  qed
qed

lemma unique_ordered_loop_set:
  "set (unique_ordered_loop seen out items) \<subseteq> set out \<union> set items"
proof (induction items arbitrary: seen out)
  case Nil
  show ?case by simp
next
  case (Cons item items)
  show ?case
  proof (cases "item \<noteq> [] \<and> item \<notin> seen")
    case True
    with Cons [of "insert item seen" "out @ [item]"] show ?thesis by auto
  next
    case False
    with Cons [of seen out] show ?thesis by auto
  qed
qed

lemma unique_ordered_distinct: "distinct (unique_ordered items)"
  by (simp add: unique_ordered_def unique_ordered_loop_distinct)

lemma unique_ordered_set: "set (unique_ordered items) \<subseteq> set items"
  using unique_ordered_loop_set [of "{}" "[]" items] by (simp add: unique_ordered_def)

lemma normalize_traits_canonical:
  "distinct (normalize_traits traits) \<and> set (normalize_traits traits) \<subseteq> set TRAIT_OPTIONS"
  by (auto simp: normalize_traits_def unique_ordered_distinct split: option.splits)

lemma llm_map_traits_canonical:
  "set (llm_map_traits reply text) \<subseteq> set TRAIT_OPTIONS"
  using normalize_traits_canonical by (auto simp: llm_map_traits_def split: option.splits)

lemma canonical_length:
  assumes "distinct ts" and "set ts \<subseteq> set TRAIT_OPTIONS"
  shows "length ts \<le> 9"
proof -
  have "length ts = card (set ts)" using assms(1) by (simp add: distinct_card)
  also have "\<dots> \<le> card (set TRAIT_OPTIONS)" using assms(2) by (simp add: card_mono)
  also have "\<dots> \<le> length TRAIT_OPTIONS" by (rule card_length)
  also have "\<dots> = 9" by (simp add: TRAIT_OPTIONS_def)
  finally show ?thesis .
qed

lemma weights_for_traits_take:
  "weights_for_traits traits = weights_for_traits (take 3 traits)"
  by (simp add: weights_for_traits_def get_weights_for_traits_def apply_trait_weights_def
      TRAIT_PRIORITY_MULTIPLIERS_def)

text \<open>
  Claim C6, as the code has it. For every free text, tag selection and priority list,
  and whatever the language model answers, \<open>resolve_traits\<close> returns a list of
  canonical trait names without duplicates, hence of at most 9 entries. The list is not
  cut to 3: only weight personalisation stops after its third entry.
\<close>

theorem resolve_traits_canonical:
  "distinct (resolve_traits reply free_text selected priority)
   \<and> set (resolve_traits reply free_text selected priority)
       \<subseteq> set TRAIT_OPTIONS
   \<and> length (resolve_traits reply free_text selected priority) \<le> 9
   \<and> weights_for_traits (resolve_traits reply free_text selected priority)
       = weights_for_traits
           (take 3 (resolve_traits reply free_text selected priority))"
proof -
  define r where "r = resolve_traits reply free_text selected priority"
  have d: "distinct r"
    using normalize_traits_canonical [of priority]
    by (simp add: r_def resolve_traits_def Let_def unique_ordered_distinct)
  have s: "set r \<subseteq> set TRAIT_OPTIONS"
  proof (cases "normalize_traits priority \<noteq> []")
    case True
    then show ?thesis
      using normalize_traits_canonical [of priority]
      by (simp add: r_def resolve_traits_def Let_def)
  next
    case False
    define qt where "qt = (case free_text of None \<Rightarrow> [] | Some t \<Rightarrow> t)"
    from False have "r = unique_ordered (llm_map_traits reply qt
                                         @ normalize_traits selected)"
      by (simp add: r_def resolve_traits_def Let_def qt_def)
    then have "set r \<subseteq> set (llm_map_traits reply qt) \<union> set (normalize_traits selected)"
      using unique_ordered_set [of "llm_map_traits reply qt @ normalize_traits selected"]
      by simp
    then show ?thesis
      using llm_map_traits_canonical [of reply qt]
        normalize_traits_canonical [of selected]
      by blast
  qed
  from d s have "length r \<le> 9" by (rule canonical_length)
  with d s weights_for_traits_take [of r] show ?thesis
    unfolding r_def by simp
qed

lemma resolve_four_priorities:
  "resolve_traits no_llm None None (Some four_priorities) = four_priorities"
  by (simp add: resolve_traits_def normalize_traits_def unique_ordered_def four_priorities_def
      TRAIT_OPTIONS_def Let_def)

theorem resolve_traits_canonical_witness:
  "distinct (resolve_traits no_llm None None (Some four_priorities))
   \<and> length (resolve_traits no_llm None None (Some four_priorities)) \<le> 9"
  using resolve_traits_canonical [of no_llm None None "Some four_priorities"] by simp

text \<open>
  A priority list of four valid traits is returned whole: four entries, more than three.
\<close>

theorem resolve_traits_length_counterexample:
  "resolve_traits no_llm None None (Some four_priorities)
     = [''health'', ''intelligence'', ''wealth'', ''leadership'']
   \<and> length (resolve_traits no_llm None None (Some four_priorities)) = 4"
  unfolding resolve_four_priorities by (simp add: four_priorities_def)

subsection \<open>The base weight table is never written\<close>

lemma add_to_key_frame:
  "length (add_to_key s r k d) = length s"
  "a \<noteq> r \<Longrightarrow> add_to_key s r k d ! a = s ! a"
  by (simp_all add: add_to_key_def)

lemma apply_overrides_frame:
  "length (apply_overrides s r m overrides) = length s
   \<and> (a \<noteq> r \<longrightarrow> apply_overrides s r m overrides ! a = s ! a)"
  by (induction s r m overrides rule: apply_overrides.induct) (simp_all add: add_to_key_frame)

lemma apply_traits_loop_frame:
  "length (apply_traits_loop s r its) = length s
   \<and> (a \<noteq> r \<longrightarrow> apply_traits_loop s r its ! a = s ! a)"
  by (induction s r its rule: apply_traits_loop.induct) (simp_all add: apply_overrides_frame)

lemma apply_trait_weights_frame:
  "fst (apply_trait_weights s base traits) = length s
   \<and> take (length s) (snd (apply_trait_weights s base traits)) = s"
proof -
  define its where "its = enumerate 0 (take (length TRAIT_PRIORITY_MULTIPLIERS) traits)"
  define s' where "s' = apply_traits_loop (s @ [s ! base]) (length s) its"
  have res: "apply_trait_weights s base traits = (length s, s')"
    by (simp add: apply_trait_weights_def dict_copy_def its_def s'_def)
  have len: "length s' = Suc (length s)"
    using apply_traits_loop_frame [of "s @ [s ! base]" "length s" its] by (simp add: s'_def)
  have same: "s' ! a = s ! a" if "a < length s" for a
  proof -
    from that have "a \<noteq> length s" by simp
    then have "s' ! a = (s @ [s ! base]) ! a"
      using apply_traits_loop_frame [of "s @ [s ! base]" "length s" its a] by (simp add: s'_def)
    with that show ?thesis by (simp add: nth_append)
  qed
  have "take (length s) s' = s"
    by (rule nth_equalityI) (simp_all add: len same)
  with res show ?thesis by simp
qed

text \<open>
  Claim C9. \<open>apply_trait_weights\<close> and \<open>get_weights_for_traits\<close> return a reference that
  was not in the store before the call, and every object that was in the store is the
  same after it: the base table passed in, and the global \<open>WEIGHTS\<close> among them, is not
  written, for every trait list.
\<close>

theorem personalisation_keeps_base_weights:
  "fst (apply_trait_weights s base traits) \<notin> {..<length s}
   \<and> take (length s) (snd (apply_trait_weights s base traits)) = s
   \<and> (base < length s \<longrightarrow> snd (apply_trait_weights s base traits) ! base = s ! base)
   \<and> fst (get_weights_for_traits s traits) \<notin> {..<length s}
   \<and> take (length s) (snd (get_weights_for_traits s traits)) = s
   \<and> snd (get_weights_for_traits initial_store traits) ! WEIGHTS_ref = WEIGHTS"
proof -
  note f = apply_trait_weights_frame
  have a: "snd (apply_trait_weights t b traits) ! x = t ! x" if "x < length t" for t b x
  proof -
    have "take (length t) (snd (apply_trait_weights t b traits)) ! x = t ! x"
      using f [of t b traits] by simp
    with that show ?thesis by simp
  qed
  have "WEIGHTS_ref < length initial_store"
    by (simp add: initial_store_def WEIGHTS_ref_def)
  then have "snd (apply_trait_weights initial_store WEIGHTS_ref traits) ! WEIGHTS_ref
               = initial_store ! WEIGHTS_ref"
    by (rule a)
  then have g: "snd (get_weights_for_traits initial_store traits) ! WEIGHTS_ref = WEIGHTS"
    by (simp add: get_weights_for_traits_def initial_store_def WEIGHTS_ref_def)
  from f [of s base traits] f [of s WEIGHTS_ref traits] a [of base s base] g
  show ?thesis by (simp add: get_weights_for_traits_def)
qed

lemma personalised_health_lagna:
  "(snd (get_weights_for_traits initial_store [''health''])
      ! fst (get_weights_for_traits initial_store [''health''])) ''lagna'' = Some 8"
  by (simp add: get_weights_for_traits_def apply_trait_weights_def dict_copy_def
      initial_store_def WEIGHTS_ref_def TRAIT_PRIORITY_MULTIPLIERS_def TRAIT_WEIGHT_OVERRIDES_def
      enumerate_eq_zip add_to_key_def WEIGHTS_def WEIGHTS_items_def)

theorem personalisation_keeps_base_weights_witness:
  "WEIGHTS_ref < length initial_store
   \<and> fst (apply_trait_weights initial_store WEIGHTS_ref [''health'']) = 1
   \<and> snd (apply_trait_weights initial_store WEIGHTS_ref [''health'']) ! WEIGHTS_ref = WEIGHTS
   \<and> (snd (get_weights_for_traits initial_store [''health''])
        ! fst (get_weights_for_traits initial_store [''health''])) ''lagna'' = Some 8
   \<and> WEIGHTS ''lagna'' = Some 2"
proof -
  have h: "WEIGHTS_ref < length initial_store"
    by (simp add: WEIGHTS_ref_def initial_store_def)
  have r: "fst (apply_trait_weights initial_store WEIGHTS_ref [''health'']) = 1"
    by (simp add: apply_trait_weights_def dict_copy_def initial_store_def)
  from personalisation_keeps_base_weights [of initial_store WEIGHTS_ref "[''health'']"] h
  have b: "snd (apply_trait_weights initial_store WEIGHTS_ref [''health'']) ! WEIGHTS_ref = WEIGHTS"
    by (simp add: initial_store_def WEIGHTS_ref_def)
  have w: "WEIGHTS ''lagna'' = Some 2"
    by (simp add: WEIGHTS_def WEIGHTS_items_def)
  from h r b personalised_health_lagna w show ?thesis by simp
qed

section \<open>Properties of the dasha timeline and of house assignment\<close>









text \<open>
  Thirty Julian years later the same chart has left the Moon period (6.25 years of it
  remained) and the Mars period (7 years) and is in the Rahu period.
\<close>

lemma dasha_lord_thirty_years: "get_dasha_lord moon_at_45 0 946728000 = Inr ''Rahu''"
  by code_simp

subsection \<open>House assignment\<close>

lemma upt_1_13: "[1..<13] = [1, 2, 3, 4, 5, 6, 7, 8, 9, 10, 11, 12]"
  by code_simp

lemma house_loop_first:
  "house_loop cs x houses
     = (case filter (\<lambda>i. house_contains cs i x) houses of [] \<Rightarrow> 1 | h # rest \<Rightarrow> h)"
  by (induction houses)
     (simp_all add: house_contains_def in_arc_def cusp_at_def next_house_def Let_def)

lemma arc_identity:
  "(of_bool (in_arc s e x) :: int) - of_bool (e < s) = of_bool (s \<le> x) - of_bool (e \<le> x)"
  by (auto simp: in_arc_def)

lemma length_filter_of_bool:
  "int (length (filter P xs)) = sum_list (map (\<lambda>i. of_bool (P i)) xs)"
  by (induction xs) simp_all

lemma cyclic_sum_zero:
  fixes g :: "nat \<Rightarrow> int"
  shows "sum_list (map (\<lambda>i. g i - g (next_house i)) [1..<13]) = 0"
  unfolding upt_1_13 by (simp add: next_house_def eval_nat_numeral)

lemma containing_houses_count:
  "length (filter (\<lambda>i. house_contains cs i x) [1..<13]) = length (wrapping_houses cs)"
proof -
  define g :: "nat \<Rightarrow> int" where "g = (\<lambda>i. of_bool (cusp_at cs i \<le> x))"
  have "int (length (filter (\<lambda>i. house_contains cs i x) [1..<13]))
          - int (length (wrapping_houses cs))
        = sum_list (map (\<lambda>i. of_bool (house_contains cs i x)
                                 - of_bool (cusp_at cs (next_house i) < cusp_at cs i)) [1..<13])"
    unfolding wrapping_houses_def length_filter_of_bool by (simp add: sum_list_subtractf)
  also have "\<dots> = sum_list (map (\<lambda>i. g i - g (next_house i)) [1..<13])"
    unfolding house_contains_def arc_identity g_def ..
  also have "\<dots> = 0" by (rule cyclic_sum_zero)
  finally show ?thesis by simp
qed

lemma pymod_id: "0 \<le> x \<Longrightarrow> x < m \<Longrightarrow> pymod x m = x"
proof -
  assume x: "0 \<le> x" "x < m"
  then have m: "0 < m" by simp
  from x m have "0 \<le> x / m" "x / m < 1" by simp_all
  then have "\<lfloor>x / m\<rfloor> = 0" by (simp add: floor_eq_iff)
  then show ?thesis by (simp add: pymod_def)
qed

text \<open>
  Claim C7. For twelve cusps in cyclic order (exactly one house whose arc runs through
  360; given as 12 values or as the 13 of the ephemeris) and every longitude,
  \<open>house_for_longitude\<close> raises nothing and returns a house from 1 to 12 whose
  half-open arc from its cusp to the next contains the longitude reduced modulo 360,
  and no other house from 1 to 12 contains it. A longitude in [0,360) is its own
  reduction.
\<close>

theorem house_assignment_total_exclusive:
  assumes ring: "cusp_ring cusps"
  shows "\<exists>cs h. normalize_cusps cusps = Inr cs
           \<and> house_for_longitude cusps lon = Inr h
           \<and> 1 \<le> h \<and> h \<le> 12
           \<and> house_contains cs h (pymod lon 360)
           \<and> (\<forall>i. 1 \<le> i \<and> i \<le> 12 \<and> house_contains cs i (pymod lon 360) \<longrightarrow> i = h)
           \<and> (0 \<le> lon \<and> lon < 360 \<longrightarrow> pymod lon 360 = lon)"
proof -
  define x where "x = pymod lon 360"
  from ring obtain cs where cs: "normalize_cusps cusps = Inr cs"
    and one: "length (wrapping_houses cs) = 1"
    by (auto simp: cusp_ring_def split: sum.splits)
  define hs where "hs = filter (\<lambda>i. house_contains cs i x) [1..<13]"
  have "length hs = 1"
    unfolding hs_def containing_houses_count by (rule one)
  then obtain h where h: "hs = [h]"
    by (cases hs) simp_all
  have mem: "i \<in> set hs \<longleftrightarrow> 1 \<le> i \<and> i \<le> 12 \<and> house_contains cs i x" for i
    unfolding hs_def by auto
  have hin: "1 \<le> h \<and> h \<le> 12 \<and> house_contains cs h x"
    using mem [of h] h by simp
  have uniq: "i = h" if "1 \<le> i \<and> i \<le> 12 \<and> house_contains cs i x" for i
    using mem [of i] h that by simp
  have "house_loop cs x [1..<13] = h"
    unfolding house_loop_first hs_def [symmetric] h by simp
  then have res: "house_for_longitude cusps lon = Inr h"
    by (simp add: house_for_longitude_def cs then_r_def x_def)
  have idm: "0 \<le> lon \<and> lon < 360 \<longrightarrow> pymod lon 360 = lon"
    by (simp add: pymod_id)
  from cs res hin uniq idm show ?thesis unfolding x_def by blast
qed

lemma equal_cusps_ring: "cusp_ring equal_cusps"
  by code_simp

lemma equal_cusps_house: "house_for_longitude equal_cusps 10 = Inr 3"
  by code_simp

theorem house_assignment_total_exclusive_witness:
  "cusp_ring equal_cusps
   \<and> house_for_longitude equal_cusps 10 = Inr 3
   \<and> house_contains (0 # equal_cusps) 3 10
   \<and> \<not> house_contains (0 # equal_cusps) 2 10
   \<and> \<not> house_contains (0 # equal_cusps) 4 10"
proof -
  have p: "pymod 10 360 = (10::real)" by (simp add: pymod_id)
  have n: "normalize_cusps equal_cusps = Inr (0 # equal_cusps)"
    by (simp add: normalize_cusps_def equal_cusps_def)
  from house_assignment_total_exclusive [OF equal_cusps_ring, of 10]
  obtain cs h where r: "normalize_cusps equal_cusps = Inr cs"
      "house_for_longitude equal_cusps 10 = Inr h"
      "house_contains cs h (pymod 10 360)"
      "\<forall>i. 1 \<le> i \<and> i \<le> 12 \<and> house_contains cs i (pymod 10 360) \<longrightarrow> i = h"
    by blast
  from r(1) n have cs: "cs = 0 # equal_cusps" by simp
  from r(2) equal_cusps_house have h: "h = 3" by simp
  from r(3) have c3: "house_contains (0 # equal_cusps) 3 10"
    unfolding p cs h .
  have c2: "\<not> house_contains (0 # equal_cusps) 2 10"
  proof
    assume "house_contains (0 # equal_cusps) 2 10"
    with r(4) [rule_format, of 2] have "(2::nat) = h" unfolding p cs by simp
    with h show False by simp
  qed
  have c4: "\<not> house_contains (0 # equal_cusps) 4 10"
  proof
    assume "house_contains (0 # equal_cusps) 4 10"
    with r(4) [rule_format, of 4] have "(4::nat) = h" unfolding p cs by simp
    with h show False by simp
  qed
  from equal_cusps_ring equal_cusps_house c3 c2 c4 show ?thesis by blast
qed


text \<open>
  Twelve coincident cusps are not such a ring: no arc contains anything, and the
  function falls through to its final \<open>return 1\<close>.
\<close>

lemma coincident_cusps_fall_through:
  "\<not> cusp_ring coincident_cusps
   \<and> house_for_longitude coincident_cusps 10 = Inr 1
   \<and> \<not> house_contains (0 # coincident_cusps) 1 10"
  by code_simp

section \<open>Properties of the slot scanner\<close>

subsection \<open>The nested loops make one pass over the slots\<close>

lemma minute_loop_flat:
  "minute_loop c sf ms d h mins st
     = flat_loop c sf ms
         (map (\<lambda>m. (d, h, m)) (takeWhile (\<lambda>m. \<not> (h = DAY_END_HOUR \<and> 0 < m)) mins)) st"
  by (induction mins arbitrary: st)
     (simp_all add: push_def Let_def split: sum.splits option.splits)

lemma flat_loop_append:
  assumes "int (length (results st)) < ctx_hard_cap c"
  shows "flat_loop c sf ms (xs @ ys) st
     = (case flat_loop c sf ms xs st of
          Inl e \<Rightarrow> Inl e
        | Inr st' \<Rightarrow>
            if ctx_hard_cap c \<le> int (length (results st')) then Inr st'
            else flat_loop c sf ms ys st')"
  using assms
proof (induction xs arbitrary: st)
  case Nil
  then show ?case by simp
next
  case (Cons s xs)
  show ?case
  proof (cases "slot_candidate c sf ms s")
    case (Inl e)
    then show ?thesis by simp
  next
    case (Inr oc)
    show ?thesis
    proof (cases oc)
      case None
      with Inr Cons show ?thesis by simp
    next
      case (Some x)
      show ?thesis
      proof (cases "c_signature x \<in> seen_keys st")
        case True
        with Inr Some Cons show ?thesis by simp
      next
        case False
        show ?thesis
        proof (cases "ctx_hard_cap c \<le> int (length (results (push x st)))")
          case True
          with Inr Some False show ?thesis by simp
        next
          case nc: False
          then have "int (length (results (push x st))) < ctx_hard_cap c" by simp
          from Cons.IH [OF this] Inr Some False nc show ?thesis by simp
        qed
      qed
    qed
  qed
qed

lemma hour_loop_flat:
  assumes "int (length (results st)) < ctx_hard_cap c"
  shows "hour_loop c sf ms d hours st
     = flat_loop c sf ms (concat (map (\<lambda>h. map (\<lambda>m. (d, h, m)) (minutes_of h)) hours)) st"
  using assms
proof (induction hours arbitrary: st)
  case Nil
  then show ?case by simp
next
  case (Cons h hours)
  have m: "minute_loop c sf ms d h minute_marks st
             = flat_loop c sf ms (map (\<lambda>m. (d, h, m)) (minutes_of h)) st"
    by (simp add: minute_loop_flat minutes_of_def)
  show ?case
  proof (cases "flat_loop c sf ms (map (\<lambda>m. (d, h, m)) (minutes_of h)) st")
    case (Inl e)
    then show ?thesis using Cons.prems by (simp add: m flat_loop_append)
  next
    case (Inr st')
    show ?thesis
    proof (cases "ctx_hard_cap c \<le> int (length (results st'))")
      case True
      with Inr show ?thesis using Cons.prems by (simp add: m flat_loop_append)
    next
      case False
      then have "int (length (results st')) < ctx_hard_cap c" by simp
      from Cons.IH [OF this] Inr False show ?thesis
        using Cons.prems by (simp add: m flat_loop_append)
    qed
  qed
qed

lemma day_slots_of:
  "map (Pair d) day_slots
     = concat (map (\<lambda>h. map (\<lambda>m. (d, h, m)) (minutes_of h)) [DAY_START_HOUR..<DAY_END_HOUR + 1])"
  by (simp add: day_slots_def map_concat comp_def)

lemma day_loop_step:
  assumes "int (length (results st)) < ctx_hard_cap c"
  shows "day_loop c sf ms (d # days) st
     = (case flat_loop c sf ms (map (Pair d) day_slots) st of
          Inl e \<Rightarrow> Inl e
        | Inr st' \<Rightarrow>
            if ctx_hard_cap c \<le> int (length (results st')) then Inr st'
            else if d = DATE_MAX then Inl OverflowError
            else day_loop c sf ms days st')"
proof -
  have h: "hour_loop c sf ms d [DAY_START_HOUR..<DAY_END_HOUR + 1] st
             = flat_loop c sf ms (map (Pair d) day_slots) st"
    unfolding day_slots_of using assms by (rule hour_loop_flat)
  show ?thesis by (simp only: day_loop.simps h)
qed

lemma day_loop_flat:
  assumes "int (length (results st)) < ctx_hard_cap c"
    and "DATE_MAX \<notin> set days"
  shows "day_loop c sf ms days st
     = flat_loop c sf ms (concat (map (\<lambda>d. map (Pair d) day_slots) days)) st"
  using assms
proof (induction days arbitrary: st)
  case Nil
  then show ?case by simp
next
  case (Cons d days)
  from Cons.prems have dm: "d \<noteq> DATE_MAX" "DATE_MAX \<notin> set days" by auto
  note step = day_loop_step [OF Cons.prems(1), of sf ms d days]
  note app = flat_loop_append [OF Cons.prems(1), of sf ms "map (Pair d) day_slots"
      "concat (map (\<lambda>d. map (Pair d) day_slots) days)"]
  show ?case
  proof (cases "flat_loop c sf ms (map (Pair d) day_slots) st")
    case (Inl e)
    then show ?thesis by (simp add: step app del: day_loop.simps)
  next
    case (Inr st')
    show ?thesis
    proof (cases "ctx_hard_cap c \<le> int (length (results st'))")
      case True
      with Inr show ?thesis by (simp add: step app del: day_loop.simps)
    next
      case False
      then have "int (length (results st')) < ctx_hard_cap c" by simp
      from Cons.IH [OF this dm(2)] Inr False dm(1) show ?thesis
        by (simp add: step app del: day_loop.simps)
    qed
  qed
qed


subsection \<open>What a pass retains\<close>








subsection \<open>De-duplication\<close>








subsection \<open>Two phases and ranking\<close>

lemma weights_no_traits: "weights_for_traits [] = WEIGHTS"
  by (simp add: weights_for_traits_def get_weights_for_traits_def apply_trait_weights_def
      dict_copy_def initial_store_def WEIGHTS_ref_def enumerate_eq_zip)

lemma no_request_traits:
  "resolve_traits no_llm None None None = []"
  by (simp add: resolve_traits_def normalize_traits_def llm_map_traits_def no_llm_def
      unique_ordered_def)

lemma two_days_ctx:
  "request_ctx request_two_days
     = \<lparr>ctx_sd = 739403, ctx_ed = 739404, ctx_traits = [], ctx_weights = WEIGHTS,
        ctx_hard_cap = 50, ctx_astrology = astrology_by_hour, ctx_parents = None\<rparr>"
  by (simp add: request_ctx_def request_two_days_def request_traits_def no_request_traits
      weights_no_traits HARD_CAP_MULTIPLIER_def)

lemma fallback_ctx:
  "request_ctx request_fallback
     = \<lparr>ctx_sd = 739403, ctx_ed = 739403, ctx_traits = [], ctx_weights = WEIGHTS,
        ctx_hard_cap = 50, ctx_astrology = astrology_ashwini, ctx_parents = None\<rparr>"
  by (simp add: request_ctx_def request_fallback_def request_traits_def no_request_traits
      weights_no_traits HARD_CAP_MULTIPLIER_def)

lemma score_rohini: "compute_score astro_rohini None WEIGHTS = Inr 46"
  by (simp add: score_defs weights_defs astro_rohini_def)

lemma score_rohini_noon: "compute_score (astro_rohini\<lparr>pada := 2\<rparr>) None WEIGHTS = Inr 43"
  by (simp add: score_defs weights_defs astro_rohini_def)

lemma score_ashwini_alone:
  "compute_score (astro_ashwini\<lparr>astro_parents_dasha := None\<rparr>) None WEIGHTS = Inr 4"
  by (simp add: score_defs weights_defs astro_ashwini_def)

lemma rohini_no_parents:
  "astro_rohini\<lparr>astro_parents_dasha := None\<rparr> = astro_rohini"
  "astro_rohini\<lparr>pada := 2, astro_parents_dasha := None\<rparr> = astro_rohini\<lparr>pada := 2\<rparr>"
  by (simp_all add: astro_rohini_def)

lemma rahu_sunday:
  "is_rahu_kalam \<lparr>dt_ordinal = 739403, dt_hour = h, dt_minute = m\<rparr>
     = (990 \<le> 60 * h + m \<and> 60 * h + m \<le> 1080)"
  by (simp add: is_rahu_kalam_minutes weekday_def rahu_bounds_minutes_def minute_of_day_def)

lemma rahu_monday:
  "is_rahu_kalam \<lparr>dt_ordinal = 739404, dt_hour = h, dt_minute = m\<rparr>
     = (450 \<le> 60 * h + m \<and> 60 * h + m \<le> 540)"
  by (simp add: is_rahu_kalam_minutes weekday_def rahu_bounds_minutes_def minute_of_day_def)

lemma slot_two_days:
  "slot_candidate (request_ctx request_two_days) True 10 (d, h, m)
     = (if is_rahu_kalam \<lparr>dt_ordinal = d, dt_hour = h, dt_minute = m\<rparr> then Inr None
        else if h < 12
        then Inr (Some \<lparr>c_date = d, c_hour = h, c_minute = m, c_astro = astro_rohini,
                        c_score = 46\<rparr>)
        else Inr (Some \<lparr>c_date = d, c_hour = h, c_minute = m,
                        c_astro = astro_rohini\<lparr>pada := 2\<rparr>, c_score = 43\<rparr>))"
  by (simp add: slot_candidate_def two_days_ctx astrology_by_hour_def rohini_no_parents
      score_rohini score_rohini_noon Let_def)

lemma two_days_cap: "ctx_hard_cap (request_ctx request_two_days) = 50"
  by (simp add: two_days_ctx)

lemma keys_differ: "rohini_key \<noteq> rohini_noon_key"
  by (simp add: rohini_key_def rohini_noon_key_def signature_of_def astro_rohini_def)

lemma sig_rohini:
  "c_signature \<lparr>c_date = d, c_hour = h, c_minute = m, c_astro = astro_rohini, c_score = s\<rparr>
     = (d, rohini_key)"
  "c_signature \<lparr>c_date = d, c_hour = h, c_minute = m, c_astro = astro_rohini\<lparr>pada := 2\<rparr>,
                 c_score = s\<rparr>
     = (d, rohini_noon_key)"
  by (simp_all add: c_signature_def signature_of_def rohini_key_def rohini_noon_key_def)

lemma two_days_slots:
  "scan_slots (request_ctx request_two_days)
     = map (Pair 739403) day_slots @ map (Pair 739404) day_slots"
  by (simp add: scan_slots_def two_days_ctx date_range_def upt_rec)

lemma day_slots_list:
  "day_slots = [(6, 0), (6, 30), (7, 0), (7, 30), (8, 0), (8, 30), (9, 0), (9, 30),
  (10, 0), (10, 30), (11, 0), (11, 30), (12, 0), (12, 30), (13, 0),
  (13, 30), (14, 0), (14, 30), (15, 0), (15, 30), (16, 0), (16, 30),
  (17, 0), (17, 30), (18, 0), (18, 30), (19, 0), (19, 30), (20, 0)]"
  by code_simp

lemma two_days_flat:
  "flat_loop (request_ctx request_two_days) True 10 (scan_slots (request_ctx request_two_days))
      \<lparr>results = [], seen_keys = {}\<rparr>
     = Inr \<lparr>results = [cand_rohini 739403, cand_rohini_noon 739403,
                        cand_rohini 739404, cand_rohini_noon 739404],
            seen_keys = {(739404, rohini_noon_key), (739404, rohini_key),
                         (739403, rohini_noon_key), (739403, rohini_key)}\<rparr>"
  unfolding two_days_slots day_slots_list
  by (simp add: slot_two_days rahu_sunday rahu_monday sig_rohini keys_differ
      keys_differ [symmetric] push_def cand_rohini_def cand_rohini_noon_def two_days_cap)


lemma run_scan_flat:
  assumes "0 < ctx_hard_cap c" and "DATE_MAX \<notin> set (date_range (ctx_sd c) (ctx_ed c))"
  shows "run_scan c sf ms
     = (case flat_loop c sf ms (scan_slots c) \<lparr>results = [], seen_keys = {}\<rparr> of
          Inl e \<Rightarrow> Inl e | Inr st \<Rightarrow> Inr (results st))"
proof -
  have "int (length (results \<lparr>results = [], seen_keys = {}\<rparr>)) < ctx_hard_cap c"
    using assms(1) by simp
  from day_loop_flat [OF this assms(2)] show ?thesis
    by (simp add: run_scan_def scan_slots_def)
qed

lemma two_days_no_max:
  "DATE_MAX \<notin> set (date_range (ctx_sd (request_ctx request_two_days))
                              (ctx_ed (request_ctx request_two_days)))"
  by (simp add: two_days_ctx date_range_def DATE_MAX_def)

lemma two_days_strict:
  "run_scan (request_ctx request_two_days) True 10
     = Inr [cand_rohini 739403, cand_rohini_noon 739403,
            cand_rohini 739404, cand_rohini_noon 739404]"
proof -
  have "0 < ctx_hard_cap (request_ctx request_two_days)" by (simp add: two_days_cap)
  from run_scan_flat [OF this two_days_no_max] show ?thesis
    by (simp add: two_days_flat)
qed

lemma rank_key_le: "(rank_key x \<le> rank_key y) = ranks_before x y"
  by (auto simp: rank_key_def ranks_before_def)

lemma sort_key_ranked: "sorted_wrt ranks_before (sort_key rank_key xs)"
proof -
  have "sorted (map rank_key (sort_key rank_key xs))" by (rule sorted_sort_key)
  then show ?thesis by (simp add: sorted_map rank_key_le)
qed

text \<open>
  Claim C3. Whenever \<open>suggest_muhurats\<close> returns, the strict scan has returned a list,
  and the relaxed scan (filters off, threshold 0) is in the log of scans that ran
  exactly when that list is empty. If the strict list is not empty, the log holds the
  strict scan alone and the output is the strict list, sorted (a permutation of it) and
  cut to \<open>max_results\<close>; if it is empty, the log holds both scans in order and the
  output comes from the relaxed list.
\<close>

theorem relaxed_scan_is_fallback:
  assumes "suggest_muhurats_logged r = Inr ((out, m), scans)"
  shows "\<exists>strict. run_scan (request_ctx r) True 10 = Inr strict
     \<and> ((False, 0) \<in> set scans) = (strict = [])
     \<and> (strict \<noteq> [] \<longrightarrow>
           scans = [(True, 10)]
           \<and> mset (sort_key rank_key strict) = mset strict
           \<and> out = slice_to (sort_key rank_key strict) (max_results r))
     \<and> (strict = [] \<longrightarrow>
           scans = [(True, 10), (False, 0)]
           \<and> (\<exists>relaxed. run_scan (request_ctx r) False 0 = Inr relaxed
                 \<and> out = slice_to (sort_key rank_key relaxed) (max_results r)))"
proof -
  from assms obtain found where tp: "two_phase (request_ctx r) = Inr (found, scans)"
    and out: "out = slice_to (sort_key rank_key found) (max_results r)"
    by (auto simp: suggest_muhurats_logged_def split: if_splits sum.splits)
  from tp obtain strict where st: "run_scan (request_ctx r) True 10 = Inr strict"
    by (auto simp: two_phase_def split: sum.splits)
  show ?thesis
  proof (cases "strict = []")
    case True
    with tp st obtain relaxed where "run_scan (request_ctx r) False 0 = Inr relaxed"
      "found = relaxed" "scans = [(True, 10), (False, 0)]"
      by (auto simp: two_phase_def split: sum.splits)
    with st True out show ?thesis by auto
  next
    case False
    with tp st have "found = strict" "scans = [(True, 10)]"
      by (auto simp: two_phase_def)
    with st False out show ?thesis by auto
  qed
qed

text \<open>
  Claim C4. For a valid request, the list that \<open>suggest_muhurats\<close> returns is the first
  \<open>max_results\<close> entries of a permutation of the collected candidates (those of the
  strict scan, or of the relaxed scan when the strict one found none) in which every
  entry ranks at or before every later one: higher score first, then earlier date, then
  earlier time. It has at most \<open>max_results\<close> entries and is ranked in the same way.
\<close>

theorem suggestions_ranked_and_capped:
  assumes valid: "valid_request r"
    and res: "suggest_muhurats r = Inr (out, m)"
  shows "\<exists>found scans ranked. two_phase (request_ctx r) = Inr (found, scans)
      \<and> mset ranked = mset found
      \<and> sorted_wrt ranks_before ranked
      \<and> out = take (nat (max_results r)) ranked
      \<and> int (length out) \<le> max_results r
      \<and> sorted_wrt ranks_before out"
proof -
  from res obtain found scans where tp: "two_phase (request_ctx r) = Inr (found, scans)"
    and out: "out = slice_to (sort_key rank_key found) (max_results r)"
    by (auto simp: suggest_muhurats_def suggest_muhurats_logged_def
        split: if_splits sum.splits prod.splits)
  define ranked where "ranked = sort_key rank_key found"
  from valid have n: "0 \<le> max_results r" by (simp add: valid_request_def)
  have m: "mset ranked = mset found" by (simp add: ranked_def)
  have s: "sorted_wrt ranks_before ranked" unfolding ranked_def by (rule sort_key_ranked)
  have o: "out = take (nat (max_results r)) ranked"
    using out n by (simp add: slice_to_def ranked_def)
  have l: "int (length out) \<le> max_results r" using o n by simp
  have so: "sorted_wrt ranks_before out" unfolding o using s by (rule sorted_wrt_take)
  from tp m s o l so show ?thesis by blast
qed

subsection \<open>A valid request is answered\<close>

text \<open>The hard cap of a request is at least 50, so every scan of a request has a positive one.\<close>

lemma request_cap_positive: "0 < ctx_hard_cap (request_ctx r)"
  by (simp add: request_ctx_def)

lemma add_to_key_keeps:
  "r < length s \<Longrightarrow> (s ! r) k \<noteq> None \<Longrightarrow> (add_to_key s r k' d ! r) k \<noteq> None"
  by (simp add: add_to_key_def)

lemma apply_overrides_keeps:
  "r < length s \<Longrightarrow> (s ! r) k \<noteq> None \<Longrightarrow> (apply_overrides s r m overrides ! r) k \<noteq> None"
proof (induction s r m overrides rule: apply_overrides.induct)
  case (1 s r multiplier)
  then show ?case by simp
next
  case (2 s r multiplier k' v overrides)
  have "r < length (add_to_key s r k' (v * multiplier))"
    using "2.prems"(1) by (simp add: add_to_key_frame)
  moreover have "(add_to_key s r k' (v * multiplier) ! r) k \<noteq> None"
    using "2.prems" by (rule add_to_key_keeps)
  ultimately show ?case using "2.IH" by simp
qed

lemma apply_traits_loop_keeps:
  "r < length s \<Longrightarrow> (s ! r) k \<noteq> None \<Longrightarrow> (apply_traits_loop s r its ! r) k \<noteq> None"
proof (induction s r its rule: apply_traits_loop.induct)
  case (1 s r)
  then show ?case by simp
next
  case (2 s r idx trait rest)
  define s1 where "s1 = apply_overrides s r (TRAIT_PRIORITY_MULTIPLIERS ! idx)
                          (TRAIT_WEIGHT_OVERRIDES trait)"
  have "r < length s1" using "2.prems"(1) by (simp add: s1_def apply_overrides_frame)
  moreover have "(s1 ! r) k \<noteq> None" unfolding s1_def using "2.prems" by (rule apply_overrides_keeps)
  ultimately show ?case using "2.IH" by (simp add: s1_def)
qed

lemma weights_for_traits_keeps:
  assumes "WEIGHTS k \<noteq> None"
  shows "weights_for_traits traits k \<noteq> None"
proof -
  define its where "its = enumerate 0 (take (length TRAIT_PRIORITY_MULTIPLIERS) traits)"
  have w: "weights_for_traits traits = apply_traits_loop [WEIGHTS, WEIGHTS] 1 its ! 1"
    by (simp add: weights_for_traits_def get_weights_for_traits_def apply_trait_weights_def
        dict_copy_def initial_store_def WEIGHTS_ref_def its_def)
  have "(apply_traits_loop [WEIGHTS, WEIGHTS] 1 its ! 1) k \<noteq> None"
    by (rule apply_traits_loop_keeps) (simp_all add: assms)
  then show ?thesis unfolding w .
qed

lemma complete_default: "complete_weights WEIGHTS"
  by (simp add: weights_defs)

lemma complete_personalised: "complete_weights (weights_for_traits traits)"
proof -
  have d: "\<forall>k\<in>set SCORE_KEYS. WEIGHTS k \<noteq> None"
    using complete_default by (simp add: complete_weights_def list_all_iff)
  have "\<forall>k\<in>set SCORE_KEYS. weights_for_traits traits k \<noteq> None"
  proof
    fix k
    assume "k \<in> set SCORE_KEYS"
    with d have "WEIGHTS k \<noteq> None" by blast
    then show "weights_for_traits traits k \<noteq> None" by (rule weights_for_traits_keeps)
  qed
  then show ?thesis by (simp add: complete_weights_def list_all_iff)
qed

lemma compute_score_returns:
  assumes "complete_weights w" and "nakshatra a \<in> set NAKSHATRA_LIST"
  shows "\<exists>s. compute_score a pmo w = Inr s"
  using compute_score_value [OF assms, of pmo] by blast

lemma slot_candidate_returns:
  assumes w: "complete_weights (ctx_weights c)"
    and a: "\<And>d h m. \<exists>a. ctx_astrology c d h m = Inr a \<and> nakshatra a \<in> set NAKSHATRA_LIST"
    and p: "\<And>pm f d h m. ctx_parents c = Some (pm, f) \<Longrightarrow> \<exists>pd. f d h m = Inr pd"
  shows "\<exists>oc. slot_candidate c sf ms s = Inr oc"
proof -
  obtain d h m where s: "s = (d, h, m)" by (cases s) auto
  from a [of d h m] obtain x where x: "ctx_astrology c d h m = Inr x"
    "nakshatra x \<in> set NAKSHATRA_LIST" by blast
  have "\<exists>pdo. (case ctx_parents c of
                       None \<Rightarrow> Inr None
                     | Some (pm, dasha_at) \<Rightarrow>
                         (case dasha_at d h m of
                            Inl e \<Rightarrow> Inl e | Inr pd \<Rightarrow> Inr (Some pd))) = Inr pdo"
  proof (cases "ctx_parents c")
    case None
    then show ?thesis by simp
  next
    case (Some pf)
    obtain pm f where pf: "pf = (pm, f)" by (cases pf) auto
    from p [of pm f d h m] Some pf obtain pd where "f d h m = Inr pd" by auto
    with Some pf show ?thesis by simp
  qed
  then obtain pdo where pdo: "(case ctx_parents c of
                       None \<Rightarrow> Inr None
                     | Some (pm, dasha_at) \<Rightarrow>
                         (case dasha_at d h m of
                            Inl e \<Rightarrow> Inl e | Inr pd \<Rightarrow> Inr (Some pd))) = Inr pdo" ..
  have "nakshatra (x\<lparr>astro_parents_dasha := pdo\<rparr>) \<in> set NAKSHATRA_LIST" using x(2) by simp
  from compute_score_returns [OF w this, of "map_option fst (ctx_parents c)"]
  obtain sc where sc: "compute_score (x\<lparr>astro_parents_dasha := pdo\<rparr>)
                         (map_option fst (ctx_parents c)) (ctx_weights c) = Inr sc" ..
  show ?thesis
    unfolding slot_candidate_def s prod.case x(1) sum.case pdo Let_def sc
    by simp
qed

lemma flat_loop_returns:
  assumes "\<And>s. \<exists>oc. slot_candidate c sf ms s = Inr oc"
  shows "\<exists>st'. flat_loop c sf ms slots st = Inr st'"
proof (induction slots arbitrary: st)
  case Nil
  show ?case by simp
next
  case (Cons s slots)
  from assms [of s] obtain oc where oc: "slot_candidate c sf ms s = Inr oc" ..
  show ?case
  proof (cases oc)
    case None
    with oc Cons [of st] show ?thesis by simp
  next
    case (Some x)
    with oc Cons [of st] Cons [of "push x st"] show ?thesis by simp
  qed
qed

text \<open>
  A valid request before \<open>date.max\<close> is answered: if the astrology computation gives a
  chart with one of the 27 nakshatras for every slot and the parents' dasha computation
  does not fail, \<open>suggest_muhurats\<close> returns a list and raises nothing.
\<close>

lemma suggest_muhurats_returns:
  assumes valid: "valid_request r"
    and before_max: "end_date r < DATE_MAX"
    and a: "\<And>d h m. \<exists>a. req_astrology r d h m = Inr a \<and> nakshatra a \<in> set NAKSHATRA_LIST"
    and p: "\<And>pm f d h m. req_parents r = Some (pm, f) \<Longrightarrow> \<exists>pd. f d h m = Inr pd"
  shows "\<exists>out m. suggest_muhurats r = Inr (out, m)"
proof -
  define c where "c = request_ctx r"
  have cap: "0 < ctx_hard_cap c" unfolding c_def by (rule request_cap_positive)
  have nomax: "DATE_MAX \<notin> set (date_range (ctx_sd c) (ctx_ed c))"
    using before_max by (simp add: c_def request_ctx_def date_range_def)
  have w: "complete_weights (ctx_weights c)"
    by (simp add: c_def request_ctx_def complete_personalised)
  have a': "\<exists>a. ctx_astrology c d h m = Inr a \<and> nakshatra a \<in> set NAKSHATRA_LIST" for d h m
    using a [of d h m] by (simp add: c_def request_ctx_def)
  have p': "\<exists>pd. f d h m = Inr pd" if "ctx_parents c = Some (pm, f)" for pm f d h m
    using p [of pm f d h m] that by (simp add: c_def request_ctx_def)
  have slot: "\<exists>oc. slot_candidate c sf ms s = Inr oc" for sf ms s
    using w a' p' by (rule slot_candidate_returns)
  have scan: "\<exists>res. run_scan c sf ms = Inr res" for sf ms
  proof -
    from flat_loop_returns [of c sf ms "scan_slots c" "\<lparr>results = [], seen_keys = {}\<rparr>"] slot
    obtain st where "flat_loop c sf ms (scan_slots c) \<lparr>results = [], seen_keys = {}\<rparr> = Inr st"
      by blast
    then show ?thesis by (simp add: run_scan_flat [OF cap nomax])
  qed
  from scan [of True 10] obtain strict where s1: "run_scan c True 10 = Inr strict" ..
  from scan [of False 0] obtain relaxed where s2: "run_scan c False 0 = Inr relaxed" ..
  have "\<exists>found scans. two_phase c = Inr (found, scans)"
    by (simp add: two_phase_def s1 s2)
  then obtain found scans where tp: "two_phase c = Inr (found, scans)" by blast
  from valid have "\<not> end_date r < start_date r" "\<not> 365 < end_date r - start_date r"
    by (simp_all add: valid_request_def)
  then show ?thesis
    using tp by (simp add: suggest_muhurats_def suggest_muhurats_logged_def c_def)
qed

subsection \<open>The example requests\<close>

lemma fallback_cap: "ctx_hard_cap (request_ctx request_fallback) = 50"
  by (simp add: fallback_ctx)

lemma ashwini_no_parents:
  "astro_ashwini\<lparr>astro_parents_dasha := None\<rparr>\<lparr>astro_parents_dasha := None\<rparr>
     = astro_ashwini\<lparr>astro_parents_dasha := None\<rparr>"
  by simp

lemma slot_fallback_strict:
  "slot_candidate (request_ctx request_fallback) True 10 (d, h, m) = Inr None"
  by (simp add: slot_candidate_def fallback_ctx astrology_ashwini_def score_ashwini_alone Let_def)

lemma slot_fallback_relaxed:
  "slot_candidate (request_ctx request_fallback) False 0 (d, h, m)
     = (if is_rahu_kalam \<lparr>dt_ordinal = d, dt_hour = h, dt_minute = m\<rparr> then Inr None
        else Inr (Some \<lparr>c_date = d, c_hour = h, c_minute = m,
                        c_astro = astro_ashwini\<lparr>astro_parents_dasha := None\<rparr>,
                        c_score = 4\<rparr>))"
  by (simp add: slot_candidate_def fallback_ctx astrology_ashwini_def score_ashwini_alone Let_def)

lemma sig_ashwini:
  "c_signature \<lparr>c_date = d, c_hour = h, c_minute = m,
                 c_astro = astro_ashwini\<lparr>astro_parents_dasha := None\<rparr>, c_score = s\<rparr>
     = (d, ashwini_key)"
  by (simp add: c_signature_def signature_of_def ashwini_key_def)

lemma fallback_slots:
  "scan_slots (request_ctx request_fallback) = map (Pair 739403) day_slots"
  by (simp add: scan_slots_def fallback_ctx date_range_def upt_rec)

lemma fallback_no_max:
  "DATE_MAX \<notin> set (date_range (ctx_sd (request_ctx request_fallback))
                              (ctx_ed (request_ctx request_fallback)))"
  by (simp add: fallback_ctx date_range_def DATE_MAX_def)

lemma fallback_strict: "run_scan (request_ctx request_fallback) True 10 = Inr []"
proof -
  have f: "flat_loop (request_ctx request_fallback) True 10
             (scan_slots (request_ctx request_fallback)) \<lparr>results = [], seen_keys = {}\<rparr>
           = Inr \<lparr>results = [], seen_keys = {}\<rparr>"
    unfolding fallback_slots day_slots_list by (simp add: slot_fallback_strict)
  have "0 < ctx_hard_cap (request_ctx request_fallback)" by (simp add: fallback_cap)
  from run_scan_flat [OF this fallback_no_max] show ?thesis by (simp add: f)
qed

lemma fallback_relaxed: "run_scan (request_ctx request_fallback) False 0 = Inr [cand_ashwini]"
proof -
  have f: "flat_loop (request_ctx request_fallback) False 0
             (scan_slots (request_ctx request_fallback)) \<lparr>results = [], seen_keys = {}\<rparr>
           = Inr \<lparr>results = [cand_ashwini], seen_keys = {(739403, ashwini_key)}\<rparr>"
    unfolding fallback_slots day_slots_list
    by (simp add: slot_fallback_relaxed rahu_sunday sig_ashwini push_def cand_ashwini_def
        fallback_cap)
  have "0 < ctx_hard_cap (request_ctx request_fallback)" by (simp add: fallback_cap)
  from run_scan_flat [OF this fallback_no_max] show ?thesis by (simp add: f)
qed

lemma two_days_sorted:
  "sort_key rank_key [cand_rohini 739403, cand_rohini_noon 739403,
                      cand_rohini 739404, cand_rohini_noon 739404]
     = [cand_rohini 739403, cand_rohini 739404,
        cand_rohini_noon 739403, cand_rohini_noon 739404]"
  by (simp add: rank_key_def cand_rohini_def cand_rohini_noon_def)

lemma two_days_logged:
  "suggest_muhurats_logged request_two_days
     = Inr (([cand_rohini 739403, cand_rohini 739404, cand_rohini_noon 739403],
             \<lparr>traits_used = [], weights_used = WEIGHTS\<rparr>), [(True, 10)])"
proof -
  have tp: "two_phase (request_ctx request_two_days)
     = Inr ([cand_rohini 739403, cand_rohini_noon 739403,
             cand_rohini 739404, cand_rohini_noon 739404], [(True, 10)])"
    by (simp add: two_phase_def two_days_strict)
  have rt: "request_traits request_two_days = []"
    by (simp add: request_traits_def request_two_days_def no_request_traits)
  have dates: "start_date request_two_days = 739403" "end_date request_two_days = 739404"
    "max_results request_two_days = 3"
    by (simp_all add: request_two_days_def)
  show ?thesis
    apply (simp only: suggest_muhurats_logged_def tp sum.case prod.case two_days_sorted rt
        weights_no_traits dates)
    apply (simp add: slice_to_def)
    done
qed

lemma fallback_logged:
  "suggest_muhurats_logged request_fallback
     = Inr (([cand_ashwini], \<lparr>traits_used = [], weights_used = WEIGHTS\<rparr>),
            [(True, 10), (False, 0)])"
proof -
  have tp: "two_phase (request_ctx request_fallback)
     = Inr ([cand_ashwini], [(True, 10), (False, 0)])"
    by (simp add: two_phase_def fallback_strict fallback_relaxed)
  have rt: "request_traits request_fallback = []"
    by (simp add: request_traits_def request_fallback_def no_request_traits)
  have dates: "start_date request_fallback = 739403" "end_date request_fallback = 739403"
    "max_results request_fallback = 10"
    by (simp_all add: request_fallback_def)
  show ?thesis
    apply (simp only: suggest_muhurats_logged_def tp sum.case prod.case rt
        weights_no_traits dates)
    apply (simp add: slice_to_def rank_key_def)
    done
qed

theorem relaxed_scan_is_fallback_witness:
  "suggest_muhurats_logged request_two_days
     = Inr (([cand_rohini 739403, cand_rohini 739404, cand_rohini_noon 739403],
             \<lparr>traits_used = [], weights_used = WEIGHTS\<rparr>), [(True, 10)])
   \<and> run_scan (request_ctx request_two_days) True 10
       = Inr [cand_rohini 739403, cand_rohini_noon 739403,
              cand_rohini 739404, cand_rohini_noon 739404]
   \<and> (False, 0) \<notin> set [(True, 10 :: int)]
   \<and> suggest_muhurats_logged request_fallback
       = Inr (([cand_ashwini], \<lparr>traits_used = [], weights_used = WEIGHTS\<rparr>),
              [(True, 10), (False, 0)])
   \<and> run_scan (request_ctx request_fallback) True 10 = Inr []
   \<and> run_scan (request_ctx request_fallback) False 0 = Inr [cand_ashwini]"
proof -
  from relaxed_scan_is_fallback [OF two_days_logged] obtain strict where
    a: "run_scan (request_ctx request_two_days) True 10 = Inr strict"
    "((False, 0) \<in> set [(True, 10 :: int)]) = (strict = [])"
    by blast
  from relaxed_scan_is_fallback [OF fallback_logged] obtain strict' where
    b: "run_scan (request_ctx request_fallback) True 10 = Inr strict'"
    "((False, 0) \<in> set [(True, 10 :: int), (False, 0)]) = (strict' = [])"
    "strict' = [] \<longrightarrow> (\<exists>relaxed. run_scan (request_ctx request_fallback) False 0 = Inr relaxed
         \<and> [cand_ashwini] = slice_to (sort_key rank_key relaxed) (max_results request_fallback))"
    by blast
  from b(2) have e: "strict' = []" by simp
  from a(1) two_days_strict have s: "strict = [cand_rohini 739403, cand_rohini_noon 739403,
              cand_rohini 739404, cand_rohini_noon 739404]" by simp
  from a(2) s have n: "(False, 0) \<notin> set [(True, 10 :: int)]" by simp
  from two_days_logged a(1) s n fallback_logged b(1) e fallback_relaxed show ?thesis by simp
qed

lemma two_days_valid: "valid_request request_two_days"
  by (simp add: valid_request_def request_two_days_def)

lemma two_days_suggest:
  "suggest_muhurats request_two_days
     = Inr ([cand_rohini 739403, cand_rohini 739404, cand_rohini_noon 739403],
            \<lparr>traits_used = [], weights_used = WEIGHTS\<rparr>)"
  by (simp add: suggest_muhurats_def two_days_logged)

theorem suggestions_ranked_and_capped_witness:
  "valid_request request_two_days
   \<and> suggest_muhurats request_two_days
       = Inr ([cand_rohini 739403, cand_rohini 739404, cand_rohini_noon 739403],
              \<lparr>traits_used = [], weights_used = WEIGHTS\<rparr>)
   \<and> sorted_wrt ranks_before [cand_rohini 739403, cand_rohini 739404, cand_rohini_noon 739403]
   \<and> ranks_before (cand_rohini 739403) (cand_rohini 739404)
   \<and> c_score (cand_rohini 739403) = c_score (cand_rohini 739404)
   \<and> int (length [cand_rohini 739403, cand_rohini 739404, cand_rohini_noon 739403])
       \<le> max_results request_two_days"
proof -
  from suggestions_ranked_and_capped [OF two_days_valid two_days_suggest]
  have s: "sorted_wrt ranks_before [cand_rohini 739403, cand_rohini 739404, cand_rohini_noon 739403]"
    and l: "int (length [cand_rohini 739403, cand_rohini 739404, cand_rohini_noon 739403])
       \<le> max_results request_two_days"
    by blast+
  from s have r: "ranks_before (cand_rohini 739403) (cand_rohini 739404)" by simp
  have e: "c_score (cand_rohini 739403) = c_score (cand_rohini 739404)"
    by (simp add: cand_rohini_def)
  from two_days_valid two_days_suggest s r e l show ?thesis by simp
qed



end
